theory Spec2Isabelle
  imports Complex_Main
begin

text \<open>
  The HTTP and WebSocket interface of the code execution service (\<open>api/v2.js\<close>):
  the validation of a request in \<open>get_job\<close>, the batch handler \<open>POST /execute\<close>
  and the interactive session \<open>/connect\<close>; and the compile script of the mono
  package, which serves C# and Visual Basic.
\<close>

section \<open>JavaScript values of a request body\<close>

text \<open>
  A request body or a WebSocket message is a parsed JSON document. A property that is
  absent reads as \<open>undefined\<close>, so the value type has \<open>JUndef\<close> as well. A
  number of a JSON document is a finite double, which is a rational number.
\<close>

datatype jsval =
    JUndef
  | JNull
  | JBool bool
  | JNum rat
  | JStr string
  | JArr "jsval list"
  | JObj "(string \<times> jsval) list"

datatype jstype = TUndefined | TObject | TBoolean | TNumber | TString

text \<open>The \<open>typeof\<close> operator: \<open>null\<close> and arrays are objects.\<close>

fun typeof :: "jsval \<Rightarrow> jstype" where
  "typeof JUndef = TUndefined"
| "typeof JNull = TObject"
| "typeof (JBool b) = TBoolean"
| "typeof (JNum n) = TNumber"
| "typeof (JStr s) = TString"
| "typeof (JArr xs) = TObject"
| "typeof (JObj kvs) = TObject"

text \<open>Truthiness, as used by \<open>!x\<close>, \<open>if (x)\<close> and \<open>x || y\<close>.\<close>

fun truthy :: "jsval \<Rightarrow> bool" where
  "truthy JUndef = False"
| "truthy JNull = False"
| "truthy (JBool b) = b"
| "truthy (JNum n) = (n \<noteq> 0)"
| "truthy (JStr s) = (s \<noteq> [])"
| "truthy (JArr xs) = True"
| "truthy (JObj kvs) = True"

fun isArray :: "jsval \<Rightarrow> bool" where
  "isArray (JArr xs) = True"
| "isArray v = False"

text \<open>Reading a property of \<open>null\<close> or \<open>undefined\<close> throws a TypeError.\<close>

fun nullish :: "jsval \<Rightarrow> bool" where
  "nullish JUndef = True"
| "nullish JNull = True"
| "nullish v = False"

text \<open>
  Reading a property of any other value. Only an object has the properties the handlers
  read (\<open>language\<close>, \<open>files\<close>, \<open>content\<close>, \<open>type\<close>, ...); on a string, a number,
  a boolean or an array they are \<open>undefined\<close>.
\<close>

fun get_prop :: "jsval \<Rightarrow> string \<Rightarrow> jsval" where
  "get_prop (JObj kvs) k = (case map_of kvs k of None \<Rightarrow> JUndef | Some v \<Rightarrow> v)"
| "get_prop v k = JUndef"

text \<open>\<open>a || b\<close>\<close>

definition js_or :: "jsval \<Rightarrow> jsval \<Rightarrow> jsval" where
  "js_or a b = (if truthy a then a else b)"

fun str_of :: "jsval \<Rightarrow> string" where
  "str_of (JStr s) = s"
| "str_of v = []"

fun num_of :: "jsval \<Rightarrow> rat" where
  "num_of (JNum n) = n"
| "num_of v = 0"

fun elems :: "jsval \<Rightarrow> jsval list" where
  "elems (JArr xs) = xs"
| "elems v = []"

subsection \<open>Numbers in messages\<close>

definition digit_char :: "nat \<Rightarrow> char" where
  "digit_char d = ''0123456789'' ! d"

function show_nat :: "nat \<Rightarrow> string" where
  "show_nat n = (if n < 10 then [digit_char n] else show_nat (n div 10) @ [digit_char (n mod 10)])"
  by pat_completeness auto
termination
  by (relation "measure id") auto

declare show_nat.simps [simp del]

definition show_int :: "int \<Rightarrow> string" where
  "show_int i = (if i < 0 then CHR ''-'' # show_nat (nat (- i)) else show_nat (nat i))"

subsection \<open>Errors\<close>

text \<open>
  What a promise is rejected with, or what a \<open>catch\<close> block receives: either the plain
  object \<open>{ message }\<close> that \<open>get_job\<close> passes to \<open>reject\<close>, or an \<open>Error\<close>
  instance thrown by the engine or by a method of the job. Both have a \<open>message\<close>.
\<close>

datatype js_error = Reject string | Thrown string

fun error_message :: "js_error \<Rightarrow> string" where
  "error_message (Reject m) = m"
| "error_message (Thrown m) = m"

text \<open>
  The TypeError of reading property \<open>k\<close> of \<open>null\<close> or \<open>undefined\<close>, and the one
  of destructuring a parameter that is \<open>null\<close> or \<open>undefined\<close>. The words of the
  messages are the engine's; they are written here as V8 words them.
\<close>

definition cannot_read :: "jsval \<Rightarrow> string \<Rightarrow> js_error" where
  "cannot_read v k = Thrown (''Cannot read properties of ''
      @ (if v = JNull then ''null'' else ''undefined'')
      @ '' (reading '' @ [CHR 0x27] @ k @ [CHR 0x27] @ '')'')"

definition cannot_destructure :: "jsval \<Rightarrow> string \<Rightarrow> string \<Rightarrow> js_error" where
  "cannot_destructure v k param = Thrown (''Cannot destructure property ''
      @ [CHR 0x27] @ k @ [CHR 0x27] @ '' of '' @ [CHR 0x27] @ param @ [CHR 0x27]
      @ '' as it is '' @ (if v = JNull then ''null'' else ''undefined'') @ ''.'')"

section \<open>The job request: \<open>get_job\<close>\<close>

text \<open>
  \<open>config\<close> and the runtime registry are modules of the repository that \<open>v2.js\<close>
  only imports: the two configured limits and the registry's lookup
  \<open>get_latest_runtime_matching_language_version\<close> are parameters of the model.
\<close>

record config =
  compile_memory_limit :: int
  run_memory_limit :: int

record runtime =
  language :: string
  version_raw :: string

type_synonym registry = "string \<Rightarrow> string \<Rightarrow> runtime option"

text \<open>
  Modelled from the spec: the class \<open>Job\<close> (\<open>job.js\<close>) is not among the sources.
  A job is what \<open>get_job\<close> gives to its constructor, together with two attributes the
  spec names: the state, one of \<open>Created\<close>, \<open>Primed\<close>, \<open>Executing\<close>, \<open>Done\<close>
  and \<open>Cleaned\<close>, and the sandbox slot the job owns, none until it is primed. A new
  job is \<open>Created\<close>.
\<close>

datatype job_state = Created | Primed | Executing | Done | Cleaned

record job =
  job_runtime :: runtime
  job_alias :: string
  args :: jsval
  stdin :: jsval
  files :: "jsval list"
  timeouts_run :: jsval
  timeouts_compile :: jsval
  memory_limits_run :: jsval
  memory_limits_compile :: jsval
  state :: job_state
  slot :: "nat option"

text \<open>The loop over \<open>files.entries()\<close>: the first offending entry decides.\<close>

fun check_files :: "nat \<Rightarrow> jsval list \<Rightarrow> js_error option" where
  "check_files i [] = None"
| "check_files i (file # rest) =
     (if nullish file then Some (cannot_read file ''content'')
      else if typeof (get_prop file ''content'') \<noteq> TString
        then Some (Reject (''files['' @ show_nat i @ ''].content is required as a string''))
      else check_files (Suc i) rest)"

definition get_job :: "config \<Rightarrow> registry \<Rightarrow> jsval \<Rightarrow> js_error + job" where
  "get_job cfg lookup body =
    (if nullish body then Inl (cannot_destructure body ''language'' ''body'')
     else
      let language = get_prop body ''language'';
          version = get_prop body ''version'';
          args = get_prop body ''args'';
          stdin = get_prop body ''stdin'';
          files = get_prop body ''files'';
          compile_memory_limit = get_prop body ''compile_memory_limit'';
          run_memory_limit = get_prop body ''run_memory_limit'';
          run_timeout = get_prop body ''run_timeout'';
          compile_timeout = get_prop body ''compile_timeout''
      in
      if \<not> truthy language \<or> typeof language \<noteq> TString
        then Inl (Reject ''language is required as a string'')
      else if \<not> truthy version \<or> typeof version \<noteq> TString
        then Inl (Reject ''version is required as a string'')
      else if \<not> truthy files \<or> \<not> isArray files
        then Inl (Reject ''files is required as an array'')
      else case check_files 0 (elems files) of
        Some e \<Rightarrow> Inl e
      | None \<Rightarrow>
     (if truthy compile_memory_limit \<and> typeof compile_memory_limit \<noteq> TNumber
        then Inl (Reject ''if specified, compile_memory_limit must be a number'')
      else if truthy compile_memory_limit \<and> config.compile_memory_limit cfg \<ge> 0 \<and>
              (num_of compile_memory_limit > of_int (config.compile_memory_limit cfg) \<or>
               num_of compile_memory_limit < 0)
        then Inl (Reject (''compile_memory_limit cannot exceed the configured limit of ''
                          @ show_int (config.compile_memory_limit cfg)))
      else if truthy run_memory_limit \<and> typeof run_memory_limit \<noteq> TNumber
        then Inl (Reject ''if specified, run_memory_limit must be a number'')
      else if truthy run_memory_limit \<and> config.run_memory_limit cfg \<ge> 0 \<and>
              (num_of run_memory_limit > of_int (config.run_memory_limit cfg) \<or>
               num_of run_memory_limit < 0)
        then Inl (Reject (''run_memory_limit cannot exceed the configured limit of ''
                          @ show_int (config.run_memory_limit cfg)))
      else (case lookup (str_of language) (str_of version) of
        None \<Rightarrow> Inl (Reject (str_of language @ ''-'' @ str_of version @ '' runtime is unknown''))
      | Some rt \<Rightarrow>
          Inr \<lparr> job_runtime = rt,
                job_alias = str_of language,
                args = js_or args (JArr []),
                stdin = js_or stdin (JStr []),
                files = elems files,
                timeouts_run = js_or run_timeout (JNum 3000),
                timeouts_compile = js_or compile_timeout (JNum 10000),
                memory_limits_run =
                  js_or run_memory_limit (JNum (of_int (config.run_memory_limit cfg))),
                memory_limits_compile =
                  js_or compile_memory_limit (JNum (of_int (config.compile_memory_limit cfg))),
                state = Created,
                slot = None \<rparr>)))"

section \<open>The life cycle of a job\<close>

text \<open>
  Modelled from the spec: the methods \<open>prime\<close>, \<open>execute\<close>,
  \<open>execute_interactive\<close> and \<open>cleanup\<close> of class \<open>Job\<close> (\<open>job.js\<close>) are not
  among the sources. The spec gives the state machine
  \<open>Created --prime--> Primed --execute--> Done --cleanup--> Cleaned\<close>: \<open>prime\<close> acquires
  the sandbox slot, a failed \<open>prime\<close> leaves the job in \<open>Created\<close> without a slot,
  and only \<open>cleanup\<close> releases the slot. Whether \<open>prime\<close> and \<open>execute\<close> succeed is
  decided by the operating system; their outcomes are inputs of the handlers below.
\<close>

definition prime_done :: "nat \<Rightarrow> job \<Rightarrow> job" where
  "prime_done k j = (if state j = Created then j\<lparr>state := Primed, slot := Some k\<rparr> else j)"

text \<open>
  Modelled from the spec: \<open>execute\<close> of \<open>job.js\<close> takes a primed job to
  \<open>Executing\<close> when it starts and to \<open>Done\<close> when it returns its result.
\<close>

definition execute_begin :: "job \<Rightarrow> job" where
  "execute_begin j = (if state j = Primed then j\<lparr>state := Executing\<rparr> else j)"

definition execute_done :: "job \<Rightarrow> job" where
  "execute_done j = (if state j = Executing then j\<lparr>state := Done\<rparr> else j)"

text \<open>
  Modelled from the spec: \<open>cleanup\<close> of \<open>job.js\<close> is legal in every state, takes
  the job to \<open>Cleaned\<close> and releases its slot; a second call changes nothing.
\<close>

definition cleanup :: "job \<Rightarrow> job" where
  "cleanup j = j\<lparr>state := Cleaned, slot := None\<rparr>"

section \<open>What a handler does\<close>

text \<open>
  The calls a handler makes, in the order it makes them: methods of the job, the HTTP
  response, and on a WebSocket \<open>ws.send\<close> (the object given to \<open>JSON.stringify\<close>),
  \<open>ws.close\<close>, \<open>eventBus.emit\<close> and \<open>setTimeout\<close>.
\<close>

datatype effect =
    Prime
  | Execute
  | ExecuteInteractive
  | Cleanup
  | Respond nat "js_error + jsval"
  | Send jsval
  | Close nat string
  | Emit string jsval
  | SetTimeout nat

text \<open>
  How the methods of the job end for one request: \<open>prime\<close> resolves, having acquired
  the slot with the given number, or rejects; \<open>execute\<close> resolves to its result or
  rejects.
\<close>

record job_env =
  prime_result :: "js_error + nat"
  execute_result :: "js_error + jsval"

section \<open>The batch handler: \<open>POST /execute\<close>\<close>

text \<open>
  One \<open>try\<close> block around \<open>get_job\<close>, \<open>prime\<close>, \<open>execute\<close>, \<open>cleanup\<close> and the
  response with status 200; one \<open>catch\<close> block that answers 400 with the error. The
  result is the job as the handler leaves it and the calls it made.
\<close>

definition post_execute ::
  "config \<Rightarrow> registry \<Rightarrow> job_env \<Rightarrow> jsval \<Rightarrow> job option \<times> effect list" where
  "post_execute cfg lookup env body =
    (case get_job cfg lookup body of
       Inl error \<Rightarrow> (None, [Respond 400 (Inl error)])
     | Inr job \<Rightarrow>
        (case prime_result env of
           Inl error \<Rightarrow> (Some job, [Prime, Respond 400 (Inl error)])
         | Inr k \<Rightarrow>
            (case execute_result env of
               Inl error \<Rightarrow>
                 (Some (execute_begin (prime_done k job)),
                  [Prime, Execute, Respond 400 (Inl error)])
             | Inr result \<Rightarrow>
                 (Some (cleanup (execute_done (execute_begin (prime_done k job)))),
                  [Prime, Execute, Cleanup, Respond 200 (Inr result)]))))"

section \<open>The interactive session: \<open>/connect\<close>\<close>

definition SIGNALS :: "string list" where
  "SIGNALS = [''SIGABRT'', ''SIGALRM'', ''SIGBUS'', ''SIGCHLD'', ''SIGCLD'', ''SIGCONT'',
    ''SIGEMT'', ''SIGFPE'', ''SIGHUP'', ''SIGILL'', ''SIGINFO'', ''SIGINT'', ''SIGIO'',
    ''SIGIOT'', ''SIGKILL'', ''SIGLOST'', ''SIGPIPE'', ''SIGPOLL'', ''SIGPROF'', ''SIGPWR'',
    ''SIGQUIT'', ''SIGSEGV'', ''SIGSTKFLT'', ''SIGSTOP'', ''SIGTSTP'', ''SIGSYS'', ''SIGTERM'',
    ''SIGTRAP'', ''SIGTTIN'', ''SIGTTOU'', ''SIGUNUSED'', ''SIGURG'', ''SIGUSR1'', ''SIGUSR2'',
    ''SIGVTALRM'', ''SIGXCPU'', ''SIGXFSZ'', ''SIGWINCH'']"

text \<open>\<open>Array.prototype.includes\<close> on an array of strings: only an equal string is found.\<close>

fun js_includes :: "string list \<Rightarrow> jsval \<Rightarrow> bool" where
  "js_includes xs (JStr s) = (s \<in> set xs)"
| "js_includes xs v = False"

text \<open>
  The state of one connection: the variable \<open>job\<close>, and how far the \<open>init\<close> case of
  the message handler has come. That case waits twice, for \<open>prime\<close> and for
  \<open>execute_interactive\<close>, and other messages, the close of the socket and the timer are
  handled while it waits. The promise of \<open>get_job\<close> is settled when it is returned, so
  the test of \<open>job\<close>, \<open>get_job\<close> and the assignment to \<open>job\<close> are one step; each
  frame is taken to be handled in a turn of the event loop of its own. The listeners
  that forward the events of the bus to the socket do not touch \<open>job\<close> and are left
  out.
\<close>

datatype progress = NotStarted | AwaitPrime | AwaitExecute | Completed | Failed

record session =
  job :: "job option"
  init_pc :: progress

text \<open>
  A frame either fails in \<open>JSON.parse\<close>, with the message of the SyntaxError, or is
  a parsed value.
\<close>

datatype incoming = Malformed string | Parsed jsval

datatype event =
    Message incoming
  | PrimeSettled "js_error + nat"
  | ExecuteSettled "js_error option"
  | SocketClosed
  | TimerExpired

definition connect :: "session \<times> effect list" where
  "connect = (\<lparr>job = None, init_pc = NotStarted\<rparr>, [SetTimeout 1000])"

text \<open>The \<open>catch\<close> block of the message handler.\<close>

definition notify_error :: "js_error \<Rightarrow> effect list" where
  "notify_error error =
     [Send (JObj [(''type'', JStr ''error''), (''message'', JStr (error_message error))]),
      Close 4002 ''Notified Error'']"

definition on_init :: "config \<Rightarrow> registry \<Rightarrow> session \<Rightarrow> jsval \<Rightarrow> session \<times> effect list" where
  "on_init cfg lookup s msg =
    (case job s of
       None \<Rightarrow>
        (case get_job cfg lookup msg of
           Inl error \<Rightarrow> (s, notify_error error)
         | Inr j \<Rightarrow> (s\<lparr>job := Some j, init_pc := AwaitPrime\<rparr>, [Prime]))
     | Some j \<Rightarrow> (s, [Close 4000 ''Already Initialized'']))"

definition on_data :: "session \<Rightarrow> jsval \<Rightarrow> session \<times> effect list" where
  "on_data s msg =
    (case job s of
       Some j \<Rightarrow>
        (if get_prop msg ''stream'' = JStr ''stdin''
         then (s, [Emit ''stdin'' (get_prop msg ''data'')])
         else (s, [Close 4004 ''Can only write to stdin'']))
     | None \<Rightarrow> (s, [Close 4003 ''Not yet initialized'']))"

definition on_signal :: "session \<Rightarrow> jsval \<Rightarrow> session \<times> effect list" where
  "on_signal s msg =
    (case job s of
       Some j \<Rightarrow>
        (if js_includes SIGNALS (get_prop msg ''signal'')
         then (s, [Emit ''signal'' (get_prop msg ''signal'')])
         else (s, [Close 4005 ''Invalid signal'']))
     | None \<Rightarrow> (s, [Close 4003 ''Not yet initialized'']))"

definition on_message ::
  "config \<Rightarrow> registry \<Rightarrow> session \<Rightarrow> incoming \<Rightarrow> session \<times> effect list" where
  "on_message cfg lookup s data =
    (case data of
       Malformed m \<Rightarrow> (s, notify_error (Thrown m))
     | Parsed msg \<Rightarrow>
        (if nullish msg then (s, notify_error (cannot_read msg ''type''))
         else if get_prop msg ''type'' = JStr ''init'' then on_init cfg lookup s msg
         else if get_prop msg ''type'' = JStr ''data'' then on_data s msg
         else if get_prop msg ''type'' = JStr ''signal'' then on_signal s msg
         else (s, [])))"

text \<open>
  The rest of the \<open>init\<close> case, after \<open>prime\<close> and after \<open>execute_interactive\<close>
  have settled. These continuations exist only while the case is waiting for them.
\<close>

definition on_prime_settled :: "session \<Rightarrow> js_error + nat \<Rightarrow> (session \<times> effect list) option" where
  "on_prime_settled s r =
    (case job s of
       None \<Rightarrow> None
     | Some j \<Rightarrow>
        (if init_pc s \<noteq> AwaitPrime then None
         else case r of
           Inl error \<Rightarrow> Some (s\<lparr>init_pc := Failed\<rparr>, notify_error error)
         | Inr k \<Rightarrow>
             Some (s\<lparr>job := Some (execute_begin (prime_done k j)), init_pc := AwaitExecute\<rparr>,
                   [Send (JObj [(''type'', JStr ''runtime''),
                                (''language'', JStr (language (job_runtime j))),
                                (''version'', JStr (version_raw (job_runtime j)))]),
                    ExecuteInteractive])))"

definition on_execute_settled ::
  "session \<Rightarrow> js_error option \<Rightarrow> (session \<times> effect list) option" where
  "on_execute_settled s r =
    (case job s of
       None \<Rightarrow> None
     | Some j \<Rightarrow>
        (if init_pc s \<noteq> AwaitExecute then None
         else case r of
           Some error \<Rightarrow> Some (s\<lparr>init_pc := Failed\<rparr>, notify_error error)
         | None \<Rightarrow>
             Some (s\<lparr>job := Some (execute_done j), init_pc := Completed\<rparr>,
                   [Close 4999 ''Job Completed''])))"

text \<open>The \<open>close\<close> handler of the socket.\<close>

definition on_close :: "session \<Rightarrow> session \<times> effect list" where
  "on_close s =
    (case job s of
       Some j \<Rightarrow> (s\<lparr>job := Some (cleanup j)\<rparr>, [Cleanup])
     | None \<Rightarrow> (s, []))"

text \<open>The callback given to \<open>setTimeout\<close>.\<close>

definition on_timeout :: "session \<Rightarrow> session \<times> effect list" where
  "on_timeout s =
    (case job s of
       None \<Rightarrow> (s, [Close 4001 ''Initialization Timeout''])
     | Some j \<Rightarrow> (s, []))"

definition step ::
  "config \<Rightarrow> registry \<Rightarrow> session \<Rightarrow> event \<Rightarrow> (session \<times> effect list) option" where
  "step cfg lookup s e =
    (case e of
       Message data \<Rightarrow> Some (on_message cfg lookup s data)
     | PrimeSettled r \<Rightarrow> on_prime_settled s r
     | ExecuteSettled r \<Rightarrow> on_execute_settled s r
     | SocketClosed \<Rightarrow> Some (on_close s)
     | TimerExpired \<Rightarrow> Some (on_timeout s))"

text \<open>
  A run of the session: the events in the order the event loop delivers them, starting
  from \<open>connect\<close>. An event that cannot happen in the state reached ends the run with
  \<open>None\<close>.
\<close>

fun run :: "config \<Rightarrow> registry \<Rightarrow> session \<times> effect list \<Rightarrow> event list \<Rightarrow>
    (session \<times> effect list) option" where
  "run cfg lookup (s, effs) [] = Some (s, effs)"
| "run cfg lookup (s, effs) (e # es) =
     (case step cfg lookup s e of
        None \<Rightarrow> None
      | Some (s', effs') \<Rightarrow> run cfg lookup (s', effs @ effs') es)"

section \<open>The compile script of the mono package\<close>

text \<open>
  The script runs \<open>rename\<close>, a compiler, \<open>grep\<close>, \<open>cat\<close> and \<open>rm\<close>. What
  \<open>rename\<close> and the compilers print and return depends on the files in the sandbox:
  it is a parameter, a function of the program and of its words as the script writes
  them (\<open>*.cs\<close> is the pattern; the shell expands it before the compiler starts).
  \<open>grep\<close>, \<open>cat\<close> and \<open>rm\<close> only touch \<open>check.txt\<close>, whose content the model
  keeps: the file is absent until the redirection \<open>> check.txt\<close> creates it in the
  sandbox directory, which the script may write to. \<open>grep\<close> returns 0 on a match, 1
  on none and 2 when the file is missing; \<open>cat\<close> and \<open>rm\<close> return 1 when the file
  is missing.
\<close>

record proc_result =
  p_stdout :: string
  p_stderr :: string
  p_status :: nat

type_synonym tools = "string \<Rightarrow> string list \<Rightarrow> proc_result"

datatype redirect = Inherit | ToFile string | ToStderr

datatype command = Command string "string list" redirect

record sh =
  check_txt :: "string option"
  sh_stdout :: string
  sh_stderr :: string
  trace :: "command list"
  status :: nat

subsection \<open>The pattern of \<open>grep\<close>\<close>

text \<open>
  \<open>error [A-Z]\+[0-9]\+:\<close> in the C locale. No part of it matches a line feed, so a
  match in the text is a match in one of its lines. Both repetitions are followed by a
  character outside their class, so each takes the whole run of its class.
\<close>

definition is_upper :: "char \<Rightarrow> bool" where
  "is_upper c = (65 \<le> (of_char c :: nat) \<and> (of_char c :: nat) \<le> 90)"

definition is_digit :: "char \<Rightarrow> bool" where
  "is_digit c = (48 \<le> (of_char c :: nat) \<and> (of_char c :: nat) \<le> 57)"

definition match_here :: "string \<Rightarrow> bool" where
  "match_here s =
    (take 6 s = ''error '' \<and>
     (let r = drop 6 s;
          us = takeWhile is_upper r;
          r1 = dropWhile is_upper r;
          ds = takeWhile is_digit r1;
          r2 = dropWhile is_digit r1
      in us \<noteq> [] \<and> ds \<noteq> [] \<and> take 1 r2 = '':''))"

fun grep_match :: "string \<Rightarrow> bool" where
  "grep_match [] = False"
| "grep_match (c # cs) = (match_here (c # cs) \<or> grep_match cs)"

subsection \<open>The commands\<close>

text \<open>An external program: its output goes to the script's streams.\<close>

definition exec :: "tools \<Rightarrow> string \<Rightarrow> string list \<Rightarrow> sh \<Rightarrow> sh" where
  "exec tool prog words s =
    (let r = tool prog words in
     s\<lparr>sh_stdout := sh_stdout s @ p_stdout r,
       sh_stderr := sh_stderr s @ p_stderr r,
       trace := trace s @ [Command prog words Inherit],
       status := p_status r\<rparr>)"

text \<open>\<open>prog words > check.txt\<close>: the standard output becomes the file.\<close>

definition exec_to_check :: "tools \<Rightarrow> string \<Rightarrow> string list \<Rightarrow> sh \<Rightarrow> sh" where
  "exec_to_check tool prog words s =
    (let r = tool prog words in
     s\<lparr>check_txt := Some (p_stdout r),
       sh_stderr := sh_stderr s @ p_stderr r,
       trace := trace s @ [Command prog words (ToFile ''check.txt'')],
       status := p_status r\<rparr>)"

definition grep_q :: "sh \<Rightarrow> sh" where
  "grep_q s =
    s\<lparr>trace := trace s @ [Command ''grep'' [''-q'', ''error [A-Z]'' @ [CHR 0x5C] @ ''+[0-9]''
                                @ [CHR 0x5C] @ ''+:'', ''check.txt''] Inherit],
      status := (case check_txt s of
                   None \<Rightarrow> 2
                 | Some text \<Rightarrow> if grep_match text then 0 else 1)\<rparr>"

definition cat_check :: "redirect \<Rightarrow> sh \<Rightarrow> sh" where
  "cat_check to s =
    (case check_txt s of
       None \<Rightarrow> s\<lparr>trace := trace s @ [Command ''cat'' [''check.txt''] to], status := 1\<rparr>
     | Some text \<Rightarrow>
         s\<lparr>sh_stdout := (if to = ToStderr then sh_stdout s else sh_stdout s @ text),
           sh_stderr := (if to = ToStderr then sh_stderr s @ text else sh_stderr s),
           trace := trace s @ [Command ''cat'' [''check.txt''] to],
           status := 0\<rparr>)"

definition rm_check :: "sh \<Rightarrow> sh" where
  "rm_check s =
    s\<lparr>check_txt := None,
      trace := trace s @ [Command ''rm'' [''check.txt''] Inherit],
      status := (case check_txt s of None \<Rightarrow> 1 | Some text \<Rightarrow> 0)\<rparr>"

text \<open>
  \<open>grep -q ... && cat check.txt 1>&2 || cat check.txt\<close>, then \<open>rm check.txt\<close>:
  the second \<open>cat\<close> runs when the list before \<open>||\<close> has failed.
\<close>

definition check_errors :: "sh \<Rightarrow> sh" where
  "check_errors s =
    (let s1 = grep_q s;
         s2 = (if status s1 = 0 then cat_check ToStderr s1 else s1);
         s3 = (if status s2 \<noteq> 0 then cat_check Inherit s2 else s2)
     in rm_check s3)"

text \<open>The Perl expression \<open>s/$/\.cs/\<close> given to \<open>rename\<close>.\<close>

definition add_extension :: "string \<Rightarrow> string" where
  "add_extension ext = ''s/$/'' @ [CHR 0x5C] @ ''.'' @ ext @ ''/''"

definition echo :: "string \<Rightarrow> sh \<Rightarrow> sh" where
  "echo text s =
    s\<lparr>sh_stdout := sh_stdout s @ text @ [CHR 0x0A],
      trace := trace s @ [Command ''echo'' [text] Inherit],
      status := 0\<rparr>"

definition exit_with :: "nat \<Rightarrow> sh \<Rightarrow> sh" where
  "exit_with n s = s\<lparr>status := n\<rparr>"

text \<open>
  The script. \<open>PISTON_LANGUAGE\<close> may be unset, which expands to the empty string; the
  arguments are the names of the staged files. The exit status of the script is the
  status of the last command it ran.
\<close>

definition compile_script :: "tools \<Rightarrow> string option \<Rightarrow> string list \<Rightarrow> sh" where
  "compile_script tool PISTON_LANGUAGE argv =
    (let lang = (case PISTON_LANGUAGE of None \<Rightarrow> [] | Some v \<Rightarrow> v);
         s0 = \<lparr>check_txt = None, sh_stdout = [], sh_stderr = [], trace = [], status = 0\<rparr>
     in
     if lang = ''csharp'' then
       check_errors
        (exec_to_check tool ''csc'' [''-out:out'', ''*.cs'']
          (exec tool ''rename'' (add_extension ''cs'' # argv) s0))
     else if lang = ''basic'' then
       check_errors
        (exec_to_check tool ''vbnc'' [''-out:out'', ''*.vb'']
          (exec tool ''rename'' (add_extension ''vb'' # argv) s0))
     else
       exit_with 1 (echo (''How did you get here? ('' @ lang @ '')'') s0))"

section \<open>Properties of requests, stated apart from the code\<close>

text \<open>A value that passes for \<open>language\<close> and \<open>version\<close>: a string that is not empty.\<close>

fun nonempty_string :: "jsval \<Rightarrow> bool" where
  "nonempty_string (JStr s) = (s \<noteq> [])"
| "nonempty_string v = False"

text \<open>An entry of \<open>files\<close> that passes: a value with a string as \<open>content\<close>.\<close>

definition file_ok :: "jsval \<Rightarrow> bool" where
  "file_ok file = (\<not> nullish file \<and> typeof (get_prop file ''content'') = TString)"

text \<open>
  A memory limit that passes under a configured ceiling: absent (or any other falsy
  value, such as 0), or a number that, when the ceiling is not negative, lies between 0
  and the ceiling.
\<close>

definition limit_ok :: "int \<Rightarrow> jsval \<Rightarrow> bool" where
  "limit_ok cap v =
     (if truthy v
      then typeof v = TNumber \<and>
           (cap < 0 \<or> (0 \<le> num_of v \<and> num_of v \<le> of_int cap))
      else True)"

text \<open>The job that \<open>get_job\<close> builds from a body and a runtime.\<close>

definition job_of :: "config \<Rightarrow> jsval \<Rightarrow> runtime \<Rightarrow> job" where
  "job_of cfg body rt =
     \<lparr> job_runtime = rt,
       job_alias = str_of (get_prop body ''language''),
       args = js_or (get_prop body ''args'') (JArr []),
       stdin = js_or (get_prop body ''stdin'') (JStr []),
       files = elems (get_prop body ''files''),
       timeouts_run = js_or (get_prop body ''run_timeout'') (JNum 3000),
       timeouts_compile = js_or (get_prop body ''compile_timeout'') (JNum 10000),
       memory_limits_run =
         js_or (get_prop body ''run_memory_limit'') (JNum (of_int (config.run_memory_limit cfg))),
       memory_limits_compile =
         js_or (get_prop body ''compile_memory_limit'')
           (JNum (of_int (config.compile_memory_limit cfg))),
       state = Created,
       slot = None \<rparr>"

text \<open>The fields of a body that \<open>get_job\<close> requires, and its two memory limits.\<close>

definition fields_ok :: "jsval \<Rightarrow> bool" where
  "fields_ok body =
     (nonempty_string (get_prop body ''language'') \<and>
      nonempty_string (get_prop body ''version'') \<and>
      isArray (get_prop body ''files'') \<and>
      list_all file_ok (elems (get_prop body ''files'')))"

definition limits_ok :: "config \<Rightarrow> jsval \<Rightarrow> bool" where
  "limits_ok cfg body =
     (limit_ok (config.compile_memory_limit cfg) (get_prop body ''compile_memory_limit'') \<and>
      limit_ok (config.run_memory_limit cfg) (get_prop body ''run_memory_limit''))"

text \<open>The registry's answer for the \<open>language\<close> and \<open>version\<close> of a body.\<close>

definition matched :: "registry \<Rightarrow> jsval \<Rightarrow> runtime option" where
  "matched lookup body =
     lookup (str_of (get_prop body ''language'')) (str_of (get_prop body ''version''))"

text \<open>
  What every run of a session keeps true: the timer was set first, and a job exists
  exactly when \<open>prime\<close> has been called.
\<close>

definition session_inv :: "session \<times> effect list \<Rightarrow> bool" where
  "session_inv p =
     (case p of (s, effs) \<Rightarrow>
        effs \<noteq> [] \<and> hd effs = SetTimeout 1000 \<and> ((job s \<noteq> None) = (Prime \<in> set effs)))"

text \<open>
  A text that contains an error diagnostic: \<open>error\<close>, a space, one or more capital
  letters, one or more digits and a colon, as in \<open>error CS1002:\<close>.
\<close>

definition has_error_diagnostic :: "string \<Rightarrow> bool" where
  "has_error_diagnostic text =
     (\<exists>pre us ds post. text = pre @ ''error '' @ us @ ds @ '':'' @ post \<and>
        us \<noteq> [] \<and> ds \<noteq> [] \<and> list_all is_upper us \<and> list_all is_digit ds)"

text \<open>The response of the batch handler: the status and body of its \<open>Respond\<close> calls.\<close>

fun responses :: "effect list \<Rightarrow> (nat \<times> (js_error + jsval)) list" where
  "responses [] = []"
| "responses (Respond code body # effs) = (code, body) # responses effs"
| "responses (eff # effs) = responses effs"

definition server_error :: "nat \<Rightarrow> bool" where
  "server_error code = (500 \<le> code \<and> code < 600)"

section \<open>Sample inputs\<close>

definition unlimited_config :: config where
  "unlimited_config = \<lparr>compile_memory_limit = - 1, run_memory_limit = - 1\<rparr>"

definition limited_config :: config where
  "limited_config = \<lparr>compile_memory_limit = 1000, run_memory_limit = 1000\<rparr>"

definition python_runtime :: runtime where
  "python_runtime = \<lparr>language = ''python'', version_raw = ''3.10.0''\<rparr>"

definition sample_registry :: registry where
  "sample_registry l v =
     (if (l = ''python'' \<or> l = ''py'') \<and> v = ''3.10'' then Some python_runtime else None)"

definition sample_files :: jsval where
  "sample_files = JArr [JObj [(''content'', JStr ''print(1+1)'')]]"

definition sample_body :: jsval where
  "sample_body =
     JObj [(''language'', JStr ''python''), (''version'', JStr ''3.10''),
           (''files'', sample_files)]"

definition run_unlimited_body :: jsval where
  "run_unlimited_body =
     JObj [(''language'', JStr ''python''), (''version'', JStr ''3.10''),
           (''files'', sample_files), (''run_memory_limit'', JNum (- 1))]"

definition compile_unlimited_body :: jsval where
  "compile_unlimited_body =
     JObj [(''language'', JStr ''python''), (''version'', JStr ''3.10''),
           (''files'', sample_files), (''compile_memory_limit'', JNum (- 1))]"

definition text_limit_body :: jsval where
  "text_limit_body =
     JObj [(''language'', JStr ''python''), (''version'', JStr ''3.10''),
           (''files'', sample_files), (''run_memory_limit'', JStr ''64mb'')]"

definition sample_job :: job where
  "sample_job =
     \<lparr> job_runtime = python_runtime, job_alias = ''python'', args = JArr [], stdin = JStr [],
       files = [JObj [(''content'', JStr ''print(1+1)'')]],
       timeouts_run = JNum 3000, timeouts_compile = JNum 10000,
       memory_limits_run = JNum (- 1), memory_limits_compile = JNum (- 1),
       state = Created, slot = None \<rparr>"

text \<open>\<open>prime\<close> obtains slot 0, then \<open>execute\<close> fails.\<close>

definition execute_fails :: job_env where
  "execute_fails =
     \<lparr>prime_result = Inr 0, execute_result = Inl (Thrown ''spawn EAGAIN'')\<rparr>"

text \<open>No sandbox slot is free: \<open>prime\<close> fails.\<close>

definition slots_exhausted :: job_env where
  "slots_exhausted =
     \<lparr>prime_result = Inl (Thrown ''no free sandbox slot''),
      execute_result = Inl (Thrown ''not primed'')\<rparr>"

definition all_succeed :: job_env where
  "all_succeed =
     \<lparr>prime_result = Inr 0,
      execute_result = Inr (JObj [(''language'', JStr ''python''), (''version'', JStr ''3.10.0''),
                                  (''run'', JObj [(''stdout'', JStr ''2''), (''code'', JNum 0)])])\<rparr>"

definition signal_message :: "string \<Rightarrow> jsval" where
  "signal_message name = JObj [(''type'', JStr ''signal''), (''signal'', JStr name)]"

definition data_message :: "string \<Rightarrow> string \<Rightarrow> jsval" where
  "data_message stream text =
     JObj [(''type'', JStr ''data''), (''stream'', JStr stream), (''data'', JStr text)]"

definition init_message :: jsval where
  "init_message =
     JObj [(''type'', JStr ''init''), (''language'', JStr ''python''),
           (''version'', JStr ''3.10''), (''files'', sample_files)]"

text \<open>A compiler that prints one error diagnostic and fails; \<open>rename\<close> is silent.\<close>

definition failing_compiler :: tools where
  "failing_compiler prog words =
     (if prog = ''rename'' then \<lparr>p_stdout = [], p_stderr = [], p_status = 0\<rparr>
      else \<lparr>p_stdout = ''a.cs(1,9): error CS1002: ; expected'', p_stderr = [], p_status = 1\<rparr>)"

text \<open>A compiler that prints a warning only and succeeds.\<close>

definition warning_compiler :: tools where
  "warning_compiler prog words =
     (if prog = ''rename'' then \<lparr>p_stdout = [], p_stderr = [], p_status = 0\<rparr>
      else \<lparr>p_stdout = ''a.cs(1,9): warning CS0168: unused'', p_stderr = [], p_status = 0\<rparr>)"

definition running_session :: session where
  "running_session =
     \<lparr>job = Some (sample_job\<lparr>state := Executing, slot := Some 0\<rparr>), init_pc = AwaitExecute\<rparr>"

definition fresh_session :: session where
  "fresh_session = \<lparr>job = None, init_pc = NotStarted\<rparr>"

definition primed_session :: session where
  "primed_session = \<lparr>job = Some sample_job, init_pc = AwaitPrime\<rparr>"

section \<open>Validation in \<open>get_job\<close>\<close>

lemma nonempty_string_iff: "nonempty_string v \<longleftrightarrow> truthy v \<and> typeof v = TString"
  by (cases v) auto

lemma nonempty_string_not_nullish: "nonempty_string (get_prop body k) \<Longrightarrow> \<not> nullish body"
  by (cases body) auto

lemma check_files_None: "check_files i fs = None \<longleftrightarrow> list_all file_ok fs"
  by (induction fs arbitrary: i) (auto simp: file_ok_def)

lemma check_files_first:
  "i < length fs \<Longrightarrow> list_all file_ok (take i fs) \<Longrightarrow> \<not> file_ok (fs ! i) \<Longrightarrow>
   check_files k fs =
     Some (if nullish (fs ! i) then cannot_read (fs ! i) ''content''
           else Reject (''files['' @ show_nat (k + i) @ ''].content is required as a string''))"
proof (induction fs arbitrary: i k)
  case Nil
  then show ?case by simp
next
  case (Cons f fs)
  show ?case
  proof (cases i)
    case 0
    with Cons.prems show ?thesis by (auto simp: file_ok_def)
  next
    case (Suc i')
    with Cons.prems have f: "file_ok f" and rest: "i' < length fs"
      "list_all file_ok (take i' fs)" "\<not> file_ok (fs ! i')" by simp_all
    have "check_files (Suc k) fs =
        Some (if nullish (fs ! i') then cannot_read (fs ! i') ''content''
              else Reject (''files['' @ show_nat (Suc k + i')
                           @ ''].content is required as a string''))"
      using rest by (rule Cons.IH[of i' "Suc k"])
    with Suc f show ?thesis by (simp add: file_ok_def)
  qed
qed

lemma limit_ok_type: "limit_ok c x \<Longrightarrow> (truthy x \<and> typeof x \<noteq> TNumber) = False"
  by (auto simp: limit_ok_def split: if_splits)

lemma limit_ok_range:
  "limit_ok c x \<Longrightarrow> (truthy x \<and> 0 \<le> c \<and> (of_int c < num_of x \<or> num_of x < 0)) = False"
  by (auto simp: limit_ok_def split: if_splits)

lemma not_limit_ok:
  "\<not> limit_ok c x \<Longrightarrow>
     truthy x \<and>
     (typeof x \<noteq> TNumber \<or> (0 \<le> c \<and> (of_int c < num_of x \<or> num_of x < 0)))"
  by (auto simp: limit_ok_def split: if_splits)

lemma get_job_nullish:
  "nullish body \<Longrightarrow>
   get_job cfg lookup body = Inl (cannot_destructure body ''language'' ''body'')"
  by (simp add: get_job_def)

lemma get_job_language:
  "\<not> nullish body \<Longrightarrow> \<not> nonempty_string (get_prop body ''language'') \<Longrightarrow>
   get_job cfg lookup body = Inl (Reject ''language is required as a string'')"
  by (simp add: get_job_def Let_def nonempty_string_iff)

lemma get_job_version:
  "nonempty_string (get_prop body ''language'') \<Longrightarrow>
   \<not> nonempty_string (get_prop body ''version'') \<Longrightarrow>
   get_job cfg lookup body = Inl (Reject ''version is required as a string'')"
  by (frule nonempty_string_not_nullish) (simp add: get_job_def Let_def nonempty_string_iff)

lemma get_job_files:
  "nonempty_string (get_prop body ''language'') \<Longrightarrow>
   nonempty_string (get_prop body ''version'') \<Longrightarrow>
   \<not> isArray (get_prop body ''files'') \<Longrightarrow>
   get_job cfg lookup body = Inl (Reject ''files is required as an array'')"
  by (frule nonempty_string_not_nullish) (simp add: get_job_def Let_def nonempty_string_iff)

lemma isArray_truthy: "isArray v \<Longrightarrow> truthy v"
  by (cases v) auto

lemma get_job_file_entry:
  "nonempty_string (get_prop body ''language'') \<Longrightarrow>
   nonempty_string (get_prop body ''version'') \<Longrightarrow>
   isArray (get_prop body ''files'') \<Longrightarrow>
   check_files 0 (elems (get_prop body ''files'')) = Some e \<Longrightarrow>
   get_job cfg lookup body = Inl e"
  by (frule nonempty_string_not_nullish)
     (simp add: get_job_def Let_def nonempty_string_iff isArray_truthy)

lemma get_job_compile_limit:
  assumes "nonempty_string (get_prop body ''language'')"
    and "nonempty_string (get_prop body ''version'')"
    and "isArray (get_prop body ''files'')"
    and "list_all file_ok (elems (get_prop body ''files''))"
    and "\<not> limit_ok (compile_memory_limit cfg) (get_prop body ''compile_memory_limit'')"
  shows "get_job cfg lookup body =
     Inl (Reject (if typeof (get_prop body ''compile_memory_limit'') \<noteq> TNumber
                  then ''if specified, compile_memory_limit must be a number''
                  else ''compile_memory_limit cannot exceed the configured limit of ''
                       @ show_int (compile_memory_limit cfg)))"
proof -
  have nn: "\<not> nullish body"
    using assms(1) by (rule nonempty_string_not_nullish)
  have cf: "check_files 0 (elems (get_prop body ''files'')) = None"
    using assms(4) by (simp add: check_files_None)
  from not_limit_ok[OF assms(5)] nn cf assms(1-3) show ?thesis
    by (simp add: get_job_def Let_def nonempty_string_iff isArray_truthy)
qed

lemma get_job_run_limit:
  assumes "nonempty_string (get_prop body ''language'')"
    and "nonempty_string (get_prop body ''version'')"
    and "isArray (get_prop body ''files'')"
    and "list_all file_ok (elems (get_prop body ''files''))"
    and "limit_ok (compile_memory_limit cfg) (get_prop body ''compile_memory_limit'')"
    and "\<not> limit_ok (run_memory_limit cfg) (get_prop body ''run_memory_limit'')"
  shows "get_job cfg lookup body =
     Inl (Reject (if typeof (get_prop body ''run_memory_limit'') \<noteq> TNumber
                  then ''if specified, run_memory_limit must be a number''
                  else ''run_memory_limit cannot exceed the configured limit of ''
                       @ show_int (run_memory_limit cfg)))"
proof -
  have nn: "\<not> nullish body"
    using assms(1) by (rule nonempty_string_not_nullish)
  have cf: "check_files 0 (elems (get_prop body ''files'')) = None"
    using assms(4) by (simp add: check_files_None)
  note c = limit_ok_type[OF assms(5)] limit_ok_range[OF assms(5)]
  from not_limit_ok[OF assms(6)] nn cf assms(1-3) show ?thesis
    by (simp add: get_job_def Let_def nonempty_string_iff isArray_truthy c)
qed

lemma get_job_lookup:
  assumes "nonempty_string (get_prop body ''language'')"
    and "nonempty_string (get_prop body ''version'')"
    and "isArray (get_prop body ''files'')"
    and "list_all file_ok (elems (get_prop body ''files''))"
    and "limit_ok (compile_memory_limit cfg) (get_prop body ''compile_memory_limit'')"
    and "limit_ok (run_memory_limit cfg) (get_prop body ''run_memory_limit'')"
  shows "get_job cfg lookup body =
    (case lookup (str_of (get_prop body ''language'')) (str_of (get_prop body ''version'')) of
       None \<Rightarrow> Inl (Reject (str_of (get_prop body ''language'') @ ''-''
                            @ str_of (get_prop body ''version'') @ '' runtime is unknown''))
     | Some rt \<Rightarrow> Inr (job_of cfg body rt))"
proof -
  have nn: "\<not> nullish body"
    using assms(1) by (rule nonempty_string_not_nullish)
  have cf: "check_files 0 (elems (get_prop body ''files'')) = None"
    using assms(4) by (simp add: check_files_None)
  note c = limit_ok_type[OF assms(5)] limit_ok_range[OF assms(5)]
  note r = limit_ok_type[OF assms(6)] limit_ok_range[OF assms(6)]
  from nn cf assms(1-3) show ?thesis
    by (simp add: get_job_def Let_def nonempty_string_iff isArray_truthy c r job_of_def
        split: option.split)
qed

text \<open>Every way through \<open>get_job\<close>.\<close>

lemma get_job_resolves_iff:
  "get_job cfg lookup body = Inr j \<longleftrightarrow>
     nonempty_string (get_prop body ''language'') \<and>
     nonempty_string (get_prop body ''version'') \<and>
     isArray (get_prop body ''files'') \<and>
     list_all file_ok (elems (get_prop body ''files'')) \<and>
     limit_ok (compile_memory_limit cfg) (get_prop body ''compile_memory_limit'') \<and>
     limit_ok (run_memory_limit cfg) (get_prop body ''run_memory_limit'') \<and>
     (\<exists>rt. lookup (str_of (get_prop body ''language'')) (str_of (get_prop body ''version''))
             = Some rt \<and> j = job_of cfg body rt)"
  (is "?L \<longleftrightarrow> ?a \<and> ?b \<and> ?c \<and> ?d \<and> ?e \<and> ?f \<and> ?g")
proof (cases "nullish body")
  case True
  then have "\<not> ?a" using nonempty_string_not_nullish by blast
  with True show ?thesis by (simp add: get_job_nullish)
next
  case nn: False
  show ?thesis
  proof (cases ?a)
    case False
    with nn show ?thesis by (simp add: get_job_language)
  next
    case a: True
    show ?thesis
    proof (cases ?b)
      case False
      with a show ?thesis by (simp add: get_job_version)
    next
      case b: True
      show ?thesis
      proof (cases ?c)
        case False
        with a b show ?thesis by (simp add: get_job_files)
      next
        case c: True
        show ?thesis
        proof (cases ?d)
          case False
          then obtain e where "check_files 0 (elems (get_prop body ''files'')) = Some e"
            using check_files_None[of 0 "elems (get_prop body ''files'')"] by auto
          from get_job_file_entry[OF a b c this] False show ?thesis by simp
        next
          case d: True
          show ?thesis
          proof (cases ?e)
            case False
            from get_job_compile_limit[OF a b c d this] False show ?thesis by simp
          next
            case e: True
            show ?thesis
            proof (cases ?f)
              case False
              from get_job_run_limit[OF a b c d e this] False show ?thesis by simp
            next
              case f: True
              from get_job_lookup[OF a b c d e f] a b c d e f show ?thesis
                by (auto split: option.splits)
            qed
          qed
        qed
      qed
    qed
  qed
qed


lemma show_int_1000: "show_int 1000 = ''1000''"
  by (simp add: show_int_def show_nat.simps digit_char_def)

lemma fields_ok_samples:
  "fields_ok sample_body" "fields_ok run_unlimited_body" "fields_ok compile_unlimited_body"
  "fields_ok text_limit_body"
  by (simp_all add: fields_ok_def sample_body_def run_unlimited_body_def
      compile_unlimited_body_def text_limit_body_def sample_files_def file_ok_def)

lemma matched_samples:
  "matched sample_registry sample_body = Some python_runtime"
  "matched sample_registry run_unlimited_body = Some python_runtime"
  "matched sample_registry compile_unlimited_body = Some python_runtime"
  "matched sample_registry text_limit_body = Some python_runtime"
  by (simp_all add: matched_def sample_registry_def sample_body_def run_unlimited_body_def
      compile_unlimited_body_def text_limit_body_def)

section \<open>Claims about \<open>get_job\<close>\<close>

text \<open>
  C7, as the specification states it, fails: a body in which \<open>language\<close>, \<open>version\<close>
  and \<open>files\<close> are well formed and whose runtime the registry knows is still rejected
  when a memory limit is not a number. Here \<open>run_memory_limit\<close> is the string
  \<open>64mb\<close>.
\<close>

theorem get_job_rejects_text_limit:
  "get_prop text_limit_body ''language'' = JStr ''python'' \<and>
   get_prop text_limit_body ''version'' = JStr ''3.10'' \<and>
   get_prop text_limit_body ''files'' = JArr [JObj [(''content'', JStr ''print(1+1)'')]] \<and>
   sample_registry ''python'' ''3.10'' = Some python_runtime \<and>
   get_job unlimited_config sample_registry text_limit_body =
     Inl (Reject ''if specified, run_memory_limit must be a number'')"
  by (simp add: text_limit_body_def sample_files_def sample_registry_def get_job_def
      unlimited_config_def)

text \<open>
  C7, amended: \<open>get_job\<close> resolves exactly when \<open>language\<close> and \<open>version\<close> are
  non-empty strings, \<open>files\<close> is an array whose entries all have a string
  \<open>content\<close>, both memory limits pass under the configured ceilings, and the registry
  has a runtime for the pair; the job is then built from that runtime. In every other
  case of a body that is not \<open>null\<close> it rejects, and the first check that fails decides
  the message: \<open>language is required as a string\<close>, \<open>version is required as a string\<close>,
  \<open>files is required as an array\<close>, \<open>files[i].content is required as a string\<close>
  for the first offending entry \<open>i\<close> (a TypeError if that entry is \<open>null\<close>), the
  message of the compile limit, the message of the run limit, and
  \<open>language-version runtime is unknown\<close>.
\<close>

theorem get_job_validation:
  "(get_job cfg lookup body = Inr j \<longleftrightarrow>
      fields_ok body \<and> limits_ok cfg body \<and>
      (\<exists>rt. matched lookup body = Some rt \<and> j = job_of cfg body rt)) \<and>
   (\<not> nullish body \<and> \<not> nonempty_string (get_prop body ''language'') \<longrightarrow>
      get_job cfg lookup body = Inl (Reject ''language is required as a string'')) \<and>
   (nonempty_string (get_prop body ''language'') \<and>
    \<not> nonempty_string (get_prop body ''version'') \<longrightarrow>
      get_job cfg lookup body = Inl (Reject ''version is required as a string'')) \<and>
   (nonempty_string (get_prop body ''language'') \<and>
    nonempty_string (get_prop body ''version'') \<and>
    \<not> isArray (get_prop body ''files'') \<longrightarrow>
      get_job cfg lookup body = Inl (Reject ''files is required as an array'')) \<and>
   (nonempty_string (get_prop body ''language'') \<and>
    nonempty_string (get_prop body ''version'') \<and>
    get_prop body ''files'' = JArr fs \<and>
    i < length fs \<and> list_all file_ok (take i fs) \<and> \<not> file_ok (fs ! i) \<longrightarrow>
      get_job cfg lookup body =
        Inl (if nullish (fs ! i) then cannot_read (fs ! i) ''content''
             else Reject (''files['' @ show_nat i @ ''].content is required as a string''))) \<and>
   (fields_ok body \<and>
    \<not> limit_ok (compile_memory_limit cfg) (get_prop body ''compile_memory_limit'') \<longrightarrow>
      get_job cfg lookup body =
        Inl (Reject (if typeof (get_prop body ''compile_memory_limit'') \<noteq> TNumber
                     then ''if specified, compile_memory_limit must be a number''
                     else ''compile_memory_limit cannot exceed the configured limit of ''
                          @ show_int (compile_memory_limit cfg)))) \<and>
   (fields_ok body \<and>
    limit_ok (compile_memory_limit cfg) (get_prop body ''compile_memory_limit'') \<and>
    \<not> limit_ok (run_memory_limit cfg) (get_prop body ''run_memory_limit'') \<longrightarrow>
      get_job cfg lookup body =
        Inl (Reject (if typeof (get_prop body ''run_memory_limit'') \<noteq> TNumber
                     then ''if specified, run_memory_limit must be a number''
                     else ''run_memory_limit cannot exceed the configured limit of ''
                          @ show_int (run_memory_limit cfg)))) \<and>
   (fields_ok body \<and> limits_ok cfg body \<and> matched lookup body = None \<longrightarrow>
      get_job cfg lookup body =
        Inl (Reject (str_of (get_prop body ''language'') @ ''-''
                     @ str_of (get_prop body ''version'') @ '' runtime is unknown'')))"
proof (intro conjI impI)
  show "get_job cfg lookup body = Inr j \<longleftrightarrow>
      fields_ok body \<and> limits_ok cfg body \<and>
      (\<exists>rt. matched lookup body = Some rt \<and> j = job_of cfg body rt)"
    by (simp add: get_job_resolves_iff fields_ok_def limits_ok_def matched_def)
next
  assume "\<not> nullish body \<and> \<not> nonempty_string (get_prop body ''language'')"
  then show "get_job cfg lookup body = Inl (Reject ''language is required as a string'')"
    by (simp add: get_job_language)
next
  assume "nonempty_string (get_prop body ''language'') \<and>
    \<not> nonempty_string (get_prop body ''version'')"
  then show "get_job cfg lookup body = Inl (Reject ''version is required as a string'')"
    by (simp add: get_job_version)
next
  assume "nonempty_string (get_prop body ''language'') \<and>
    nonempty_string (get_prop body ''version'') \<and> \<not> isArray (get_prop body ''files'')"
  then show "get_job cfg lookup body = Inl (Reject ''files is required as an array'')"
    by (simp add: get_job_files)
next
  assume a: "nonempty_string (get_prop body ''language'') \<and>
    nonempty_string (get_prop body ''version'') \<and>
    get_prop body ''files'' = JArr fs \<and>
    i < length fs \<and> list_all file_ok (take i fs) \<and> \<not> file_ok (fs ! i)"
  then have "check_files 0 (elems (get_prop body ''files'')) =
     Some (if nullish (fs ! i) then cannot_read (fs ! i) ''content''
           else Reject (''files['' @ show_nat i @ ''].content is required as a string''))"
    using check_files_first[of i fs 0] by simp
  with a show "get_job cfg lookup body =
        Inl (if nullish (fs ! i) then cannot_read (fs ! i) ''content''
             else Reject (''files['' @ show_nat i @ ''].content is required as a string''))"
    using get_job_file_entry[of body _ cfg lookup] by simp
next
  assume "fields_ok body \<and>
    \<not> limit_ok (compile_memory_limit cfg) (get_prop body ''compile_memory_limit'')"
  then show "get_job cfg lookup body =
        Inl (Reject (if typeof (get_prop body ''compile_memory_limit'') \<noteq> TNumber
                     then ''if specified, compile_memory_limit must be a number''
                     else ''compile_memory_limit cannot exceed the configured limit of ''
                          @ show_int (compile_memory_limit cfg)))"
    using get_job_compile_limit[of body cfg lookup] by (simp add: fields_ok_def)
next
  assume "fields_ok body \<and>
    limit_ok (compile_memory_limit cfg) (get_prop body ''compile_memory_limit'') \<and>
    \<not> limit_ok (run_memory_limit cfg) (get_prop body ''run_memory_limit'')"
  then show "get_job cfg lookup body =
        Inl (Reject (if typeof (get_prop body ''run_memory_limit'') \<noteq> TNumber
                     then ''if specified, run_memory_limit must be a number''
                     else ''run_memory_limit cannot exceed the configured limit of ''
                          @ show_int (run_memory_limit cfg)))"
    using get_job_run_limit[of body cfg lookup] by (simp add: fields_ok_def)
next
  assume "fields_ok body \<and> limits_ok cfg body \<and> matched lookup body = None"
  then show "get_job cfg lookup body =
        Inl (Reject (str_of (get_prop body ''language'') @ ''-''
                     @ str_of (get_prop body ''version'') @ '' runtime is unknown''))"
    using get_job_lookup[of body cfg lookup] by (simp add: fields_ok_def limits_ok_def matched_def)
qed

theorem get_job_validation_witness:
  "fields_ok sample_body \<and> limits_ok unlimited_config sample_body \<and>
   matched sample_registry sample_body = Some python_runtime \<and>
   get_job unlimited_config sample_registry sample_body = Inr sample_job"
proof -
  have f: "fields_ok sample_body"
    by (rule fields_ok_samples)
  have l: "limits_ok unlimited_config sample_body"
    by (simp add: limits_ok_def limit_ok_def sample_body_def)
  have m: "matched sample_registry sample_body = Some python_runtime"
    by (rule matched_samples)
  have j: "sample_job = job_of unlimited_config sample_body python_runtime"
    by (simp add: sample_job_def job_of_def sample_body_def sample_files_def js_or_def
        unlimited_config_def)
  from get_job_validation[of unlimited_config sample_registry sample_body sample_job] f l m j
  show ?thesis by simp
qed

text \<open>
  C3, as the specification states it, fails: with a configured ceiling of 1000 bytes a
  request whose \<open>run_memory_limit\<close> is \<open>-1\<close> is rejected, although the rest of the
  request is valid.
\<close>

theorem get_job_rejects_minus_one_under_ceiling:
  "get_prop run_unlimited_body ''run_memory_limit'' = JNum (- 1) \<and>
   run_memory_limit limited_config = 1000 \<and>
   get_job limited_config sample_registry run_unlimited_body =
     Inl (Reject ''run_memory_limit cannot exceed the configured limit of 1000'')"
  by (simp add: run_unlimited_body_def sample_files_def sample_registry_def get_job_def
      limited_config_def show_int_1000)

text \<open>
  C3, amended: a memory limit of \<open>-1\<close> is accepted only when the configured ceiling
  of that limit is itself negative (unlimited). For a request that is valid otherwise,
  \<open>get_job\<close> then resolves to a job that carries the limit \<open>-1\<close>; when the ceiling
  is 0 or more, \<open>get_job\<close> rejects with \<open>run_memory_limit cannot exceed the
  configured limit of\<close> the ceiling (and likewise for \<open>compile_memory_limit\<close>).
\<close>

theorem minus_one_needs_unlimited_ceiling:
  assumes "fields_ok body" and "matched lookup body = Some rt"
  shows
  "(get_prop body ''run_memory_limit'' = JNum (- 1) \<and>
    limit_ok (compile_memory_limit cfg) (get_prop body ''compile_memory_limit'') \<longrightarrow>
      get_job cfg lookup body =
       (if 0 \<le> run_memory_limit cfg
        then Inl (Reject (''run_memory_limit cannot exceed the configured limit of ''
                          @ show_int (run_memory_limit cfg)))
        else Inr (job_of cfg body rt)) \<and>
      memory_limits_run (job_of cfg body rt) = JNum (- 1)) \<and>
   (get_prop body ''compile_memory_limit'' = JNum (- 1) \<and>
    limit_ok (run_memory_limit cfg) (get_prop body ''run_memory_limit'') \<longrightarrow>
      get_job cfg lookup body =
       (if 0 \<le> compile_memory_limit cfg
        then Inl (Reject (''compile_memory_limit cannot exceed the configured limit of ''
                          @ show_int (compile_memory_limit cfg)))
        else Inr (job_of cfg body rt)) \<and>
      memory_limits_compile (job_of cfg body rt) = JNum (- 1))"
proof (intro conjI impI)
  assume a: "get_prop body ''run_memory_limit'' = JNum (- 1) \<and>
    limit_ok (compile_memory_limit cfg) (get_prop body ''compile_memory_limit'')"
  then have r: "limit_ok (run_memory_limit cfg) (get_prop body ''run_memory_limit'')
      \<longleftrightarrow> \<not> 0 \<le> run_memory_limit cfg"
    by (auto simp: limit_ok_def)
  from a show "memory_limits_run (job_of cfg body rt) = JNum (- 1)"
    by (simp add: job_of_def js_or_def)
  show "get_job cfg lookup body =
       (if 0 \<le> run_memory_limit cfg
        then Inl (Reject (''run_memory_limit cannot exceed the configured limit of ''
                          @ show_int (run_memory_limit cfg)))
        else Inr (job_of cfg body rt))"
  proof (cases "0 \<le> run_memory_limit cfg")
    case True
    with r a assms(1) get_job_run_limit[of body cfg lookup] show ?thesis
      by (simp add: fields_ok_def)
  next
    case False
    with r a assms get_job_lookup[of body cfg lookup] show ?thesis
      by (simp add: fields_ok_def matched_def)
  qed
next
  assume a: "get_prop body ''compile_memory_limit'' = JNum (- 1) \<and>
    limit_ok (run_memory_limit cfg) (get_prop body ''run_memory_limit'')"
  then have c: "limit_ok (compile_memory_limit cfg) (get_prop body ''compile_memory_limit'')
      \<longleftrightarrow> \<not> 0 \<le> compile_memory_limit cfg"
    by (auto simp: limit_ok_def)
  from a show "memory_limits_compile (job_of cfg body rt) = JNum (- 1)"
    by (simp add: job_of_def js_or_def)
  show "get_job cfg lookup body =
       (if 0 \<le> compile_memory_limit cfg
        then Inl (Reject (''compile_memory_limit cannot exceed the configured limit of ''
                          @ show_int (compile_memory_limit cfg)))
        else Inr (job_of cfg body rt))"
  proof (cases "0 \<le> compile_memory_limit cfg")
    case True
    with c a assms(1) get_job_compile_limit[of body cfg lookup] show ?thesis
      by (simp add: fields_ok_def)
  next
    case False
    with c a assms get_job_lookup[of body cfg lookup] show ?thesis
      by (simp add: fields_ok_def matched_def)
  qed
qed

theorem minus_one_needs_unlimited_ceiling_witness:
  "fields_ok run_unlimited_body \<and>
   matched sample_registry run_unlimited_body = Some python_runtime \<and>
   get_prop run_unlimited_body ''run_memory_limit'' = JNum (- 1) \<and>
   limit_ok (compile_memory_limit unlimited_config)
     (get_prop run_unlimited_body ''compile_memory_limit'') \<and>
   get_job unlimited_config sample_registry run_unlimited_body =
     Inr (job_of unlimited_config run_unlimited_body python_runtime) \<and>
   get_job limited_config sample_registry run_unlimited_body =
     Inl (Reject ''run_memory_limit cannot exceed the configured limit of 1000'')"
proof -
  have f: "fields_ok run_unlimited_body"
    by (rule fields_ok_samples)
  have m: "matched sample_registry run_unlimited_body = Some python_runtime"
    by (rule matched_samples)
  have r: "get_prop run_unlimited_body ''run_memory_limit'' = JNum (- 1)"
    by (simp add: run_unlimited_body_def)
  have c: "limit_ok c (get_prop run_unlimited_body ''compile_memory_limit'')" for c
    by (simp add: run_unlimited_body_def limit_ok_def)
  from minus_one_needs_unlimited_ceiling[OF f m, of unlimited_config]
    minus_one_needs_unlimited_ceiling[OF f m, of limited_config] f m r c
  show ?thesis
    by (simp add: unlimited_config_def limited_config_def show_int_1000)
qed

section \<open>Claims about \<open>POST /execute\<close>\<close>

lemma get_job_sample:
  "get_job unlimited_config sample_registry sample_body = Inr sample_job"
  by (simp add: get_job_def sample_body_def sample_files_def sample_registry_def
      unlimited_config_def sample_job_def js_or_def)

text \<open>
  For every request: the handler answers once, with 200 or 400; it answers 200 exactly
  when \<open>get_job\<close>, \<open>prime\<close> and \<open>execute\<close> all succeed, and it calls \<open>cleanup\<close>
  in exactly that case.
\<close>

lemma post_execute_responds_once:
  "\<exists>code b. responses (snd (post_execute cfg lookup env body)) = [(code, b)] \<and>
     (code = 200 \<or> code = 400)"
  by (simp add: post_execute_def split: sum.splits)

lemma post_execute_never_5xx:
  "(code, b) \<in> set (responses (snd (post_execute cfg lookup env body))) \<Longrightarrow>
   \<not> server_error code"
  by (auto simp: post_execute_def server_error_def split: sum.splits)

lemma post_execute_200_iff:
  "responses (snd (post_execute cfg lookup env body)) = [(200, Inr r)] \<longleftrightarrow>
     (\<exists>j k. get_job cfg lookup body = Inr j \<and> prime_result env = Inr k \<and>
            execute_result env = Inr r)"
  by (auto simp: post_execute_def split: sum.splits)

lemma post_execute_cleanup_iff:
  "Cleanup \<in> set (snd (post_execute cfg lookup env body)) \<longleftrightarrow>
     (\<exists>j k r. get_job cfg lookup body = Inr j \<and> prime_result env = Inr k \<and>
              execute_result env = Inr r)"
  by (auto simp: post_execute_def split: sum.splits)

lemma get_job_created:
  "get_job cfg lookup body = Inr j \<Longrightarrow> state j = Created \<and> slot j = None"
  by (auto simp: get_job_resolves_iff job_of_def)

lemma post_execute_holds_slot:
  assumes "get_job cfg lookup body = Inr j" and "prime_result env = Inr k"
    and "execute_result env = Inl e"
  shows "post_execute cfg lookup env body =
     (Some (j\<lparr>state := Executing, slot := Some k\<rparr>), [Prime, Execute, Respond 400 (Inl e)])"
  using assms get_job_created[OF assms(1)]
  by (simp add: post_execute_def prime_done_def execute_begin_def)

lemma post_execute_success_sample:
  "post_execute unlimited_config sample_registry all_succeed sample_body =
     (Some (sample_job\<lparr>state := Cleaned, slot := None\<rparr>),
      [Prime, Execute, Cleanup, Respond 200 (execute_result all_succeed)])"
  by (simp add: post_execute_def get_job_sample all_succeed_def prime_done_def
      execute_begin_def execute_done_def cleanup_def sample_job_def)

text \<open>
  C1: after a successful \<open>prime\<close> the slot is to be released on every exit path
  before the response is sent. The handler does not do so when \<open>execute\<close> fails: for
  the sample request, with \<open>prime\<close> obtaining slot 0 and \<open>execute\<close> rejecting, the
  handler calls \<open>prime\<close> and \<open>execute\<close>, never \<open>cleanup\<close>, answers 400, and
  leaves the job holding slot 0.
\<close>

theorem post_execute_leaks_slot_when_execute_fails:
  "post_execute unlimited_config sample_registry execute_fails sample_body =
     (Some (sample_job\<lparr>state := Executing, slot := Some 0\<rparr>),
      [Prime, Execute, Respond 400 (Inl (Thrown ''spawn EAGAIN''))])"
  by (simp add: post_execute_def get_job_sample execute_fails_def prime_done_def
      execute_begin_def sample_job_def)

text \<open>
  C2: an engine error is to yield a 5xx status. The handler has one \<open>catch\<close> block
  for every failure: when no sandbox slot is free and \<open>prime\<close> rejects, the valid
  sample request is answered with status 400, which is not a 5xx status.
\<close>

theorem post_execute_answers_400_when_prime_fails:
  "post_execute unlimited_config sample_registry slots_exhausted sample_body =
     (Some sample_job, [Prime, Respond 400 (Inl (Thrown ''no free sandbox slot''))]) \<and>
   \<not> server_error 400"
  by (simp add: post_execute_def get_job_sample slots_exhausted_def server_error_def)

section \<open>Claims about the interactive session\<close>

lemma get_job_init_message:
  "get_job unlimited_config sample_registry init_message = Inr sample_job"
  by (simp add: get_job_def init_message_def sample_files_def sample_registry_def
      unlimited_config_def sample_job_def js_or_def)

lemma type_not_nullish: "get_prop msg k = JStr t \<Longrightarrow> \<not> nullish msg"
  by (cases msg) auto

lemma js_includes_iff: "js_includes xs v \<longleftrightarrow> v \<in> JStr ` set xs"
  by (cases v) auto

text \<open>
  C4: on a session that has a job, a \<open>signal\<close> message is forwarded to the bus, on
  the topic \<open>signal\<close>, exactly when its \<open>signal\<close> field is one of the names in
  \<open>SIGNALS\<close>; for any other value the handler closes the session with code 4005
  and emits nothing. The session itself is unchanged.
\<close>

theorem signal_forwarded_iff_allowed:
  assumes "job s = Some j" and "get_prop msg ''type'' = JStr ''signal''"
  shows "step cfg lookup s (Message (Parsed msg)) =
     Some (s, if get_prop msg ''signal'' \<in> JStr ` set SIGNALS
              then [Emit ''signal'' (get_prop msg ''signal'')]
              else [Close 4005 ''Invalid signal''])"
  using assms type_not_nullish[OF assms(2)]
  by (simp add: step_def on_message_def on_signal_def js_includes_iff)

theorem signal_forwarded_iff_allowed_witness:
  "job running_session = Some (sample_job\<lparr>state := Executing, slot := Some 0\<rparr>) \<and>
   get_prop (signal_message ''SIGTERM'') ''type'' = JStr ''signal'' \<and>
   get_prop (signal_message ''SIGFOO'') ''type'' = JStr ''signal'' \<and>
   step unlimited_config sample_registry running_session
       (Message (Parsed (signal_message ''SIGTERM''))) =
     Some (running_session, [Emit ''signal'' (JStr ''SIGTERM'')]) \<and>
   step unlimited_config sample_registry running_session
       (Message (Parsed (signal_message ''SIGFOO''))) =
     Some (running_session, [Close 4005 ''Invalid signal''])"
proof -
  have j: "job running_session = Some (sample_job\<lparr>state := Executing, slot := Some 0\<rparr>)"
    by (simp add: running_session_def)
  have t: "get_prop (signal_message name) ''type'' = JStr ''signal''" for name
    by (simp add: signal_message_def)
  have v: "get_prop (signal_message name) ''signal'' = JStr name" for name
    by (simp add: signal_message_def)
  have a: "JStr ''SIGTERM'' \<in> JStr ` set SIGNALS"
    by (simp add: SIGNALS_def)
  have b: "JStr ''SIGFOO'' \<notin> JStr ` set SIGNALS"
    by (simp add: SIGNALS_def)
  from signal_forwarded_iff_allowed[OF j t, of unlimited_config sample_registry "''SIGTERM''"]
    signal_forwarded_iff_allowed[OF j t, of unlimited_config sample_registry "''SIGFOO''"]
    j t v a b
  show ?thesis by simp
qed

text \<open>
  C6: on a session that has a job, a \<open>data\<close> message whose \<open>stream\<close> is
  \<open>stdin\<close> is published on the bus topic \<open>stdin\<close> with its payload, and a
  \<open>data\<close> message for any other stream closes the session with code 4004. Before a
  job exists, a \<open>data\<close> or \<open>signal\<close> message closes the session with code 4003.
\<close>

theorem data_message_handling:
  "(job s = Some j \<and> get_prop msg ''type'' = JStr ''data'' \<longrightarrow>
      step cfg lookup s (Message (Parsed msg)) =
        Some (s, if get_prop msg ''stream'' = JStr ''stdin''
                 then [Emit ''stdin'' (get_prop msg ''data'')]
                 else [Close 4004 ''Can only write to stdin''])) \<and>
   (job s = None \<and>
    (get_prop msg ''type'' = JStr ''data'' \<or> get_prop msg ''type'' = JStr ''signal'') \<longrightarrow>
      step cfg lookup s (Message (Parsed msg)) = Some (s, [Close 4003 ''Not yet initialized'']))"
proof (intro conjI impI)
  assume a: "job s = Some j \<and> get_prop msg ''type'' = JStr ''data''"
  then have "\<not> nullish msg" using type_not_nullish by blast
  with a show "step cfg lookup s (Message (Parsed msg)) =
        Some (s, if get_prop msg ''stream'' = JStr ''stdin''
                 then [Emit ''stdin'' (get_prop msg ''data'')]
                 else [Close 4004 ''Can only write to stdin''])"
    by (simp add: step_def on_message_def on_data_def)
next
  assume a: "job s = None \<and>
    (get_prop msg ''type'' = JStr ''data'' \<or> get_prop msg ''type'' = JStr ''signal'')"
  then have "\<not> nullish msg" using type_not_nullish by blast
  with a show "step cfg lookup s (Message (Parsed msg)) =
      Some (s, [Close 4003 ''Not yet initialized''])"
    by (auto simp: step_def on_message_def on_data_def on_signal_def)
qed

theorem data_message_handling_witness:
  "job running_session = Some (sample_job\<lparr>state := Executing, slot := Some 0\<rparr>) \<and>
   job fresh_session = None \<and>
   get_prop (data_message ''stdin'' ''hello'') ''type'' = JStr ''data'' \<and>
   step unlimited_config sample_registry running_session
       (Message (Parsed (data_message ''stdin'' ''hello''))) =
     Some (running_session, [Emit ''stdin'' (JStr ''hello'')]) \<and>
   step unlimited_config sample_registry running_session
       (Message (Parsed (data_message ''stdout'' ''hello''))) =
     Some (running_session, [Close 4004 ''Can only write to stdin'']) \<and>
   step unlimited_config sample_registry fresh_session
       (Message (Parsed (data_message ''stdin'' ''hello''))) =
     Some (fresh_session, [Close 4003 ''Not yet initialized'']) \<and>
   step unlimited_config sample_registry fresh_session
       (Message (Parsed (signal_message ''SIGTERM''))) =
     Some (fresh_session, [Close 4003 ''Not yet initialized''])"
proof -
  have j: "job running_session = Some (sample_job\<lparr>state := Executing, slot := Some 0\<rparr>)"
    by (simp add: running_session_def)
  have n: "job fresh_session = None"
    by (simp add: fresh_session_def)
  have d: "get_prop (data_message stream payload) ''type'' = JStr ''data''"
    "get_prop (data_message stream payload) ''stream'' = JStr stream"
    "get_prop (data_message stream payload) ''data'' = JStr payload" for stream payload
    by (simp_all add: data_message_def)
  have t: "get_prop (signal_message name) ''type'' = JStr ''signal''" for name
    by (simp add: signal_message_def)
  from data_message_handling[of running_session _ "data_message ''stdin'' ''hello''"
      unlimited_config sample_registry]
    data_message_handling[of running_session _ "data_message ''stdout'' ''hello''"
      unlimited_config sample_registry]
    data_message_handling[of fresh_session _ "data_message ''stdin'' ''hello''"
      unlimited_config sample_registry]
    data_message_handling[of fresh_session _ "signal_message ''SIGTERM''"
      unlimited_config sample_registry]
    j n d t
  show ?thesis by simp
qed

text \<open>
  C9: when the socket closes and a job was created, the handler calls \<open>cleanup\<close> of
  the job, whatever the \<open>init\<close> case is waiting for, after which the job is
  \<open>Cleaned\<close> and holds no slot; when no job was created, the handler does nothing.
\<close>

theorem close_cleans_up_job:
  "(job s = Some j \<longrightarrow>
      step cfg lookup s SocketClosed = Some (s\<lparr>job := Some (cleanup j)\<rparr>, [Cleanup]) \<and>
      state (cleanup j) = Cleaned \<and> slot (cleanup j) = None) \<and>
   (job s = None \<longrightarrow> step cfg lookup s SocketClosed = Some (s, []))"
  by (simp add: step_def on_close_def cleanup_def)

theorem close_cleans_up_job_witness:
  "job running_session = Some (sample_job\<lparr>state := Executing, slot := Some 0\<rparr>) \<and>
   init_pc running_session = AwaitExecute \<and>
   step unlimited_config sample_registry running_session SocketClosed =
     Some (running_session\<lparr>job := Some (sample_job\<lparr>state := Cleaned, slot := None\<rparr>)\<rparr>,
           [Cleanup]) \<and>
   job fresh_session = None \<and>
   step unlimited_config sample_registry fresh_session SocketClosed = Some (fresh_session, [])"
proof -
  have j: "job running_session = Some (sample_job\<lparr>state := Executing, slot := Some 0\<rparr>)"
    by (simp add: running_session_def)
  have p: "init_pc running_session = AwaitExecute"
    by (simp add: running_session_def)
  have n: "job fresh_session = None"
    by (simp add: fresh_session_def)
  have c: "cleanup (sample_job\<lparr>state := Executing, slot := Some 0\<rparr>) =
      sample_job\<lparr>state := Cleaned, slot := None\<rparr>"
    by (simp add: cleanup_def)
  from close_cleans_up_job[of running_session
      "sample_job\<lparr>state := Executing, slot := Some 0\<rparr>" unlimited_config sample_registry]
    close_cleans_up_job[of fresh_session _ unlimited_config sample_registry] j p n c
  show ?thesis by simp
qed

lemma notify_error_no_prime: "Prime \<notin> set (notify_error e)"
  by (simp add: notify_error_def)

lemma step_inv:
  assumes "session_inv (s, effs)" and "step cfg lookup s e = Some (s', effs')"
  shows "session_inv (s', effs @ effs')"
proof (cases e)
  case (Message data)
  show ?thesis
  proof (cases data)
    case (Malformed m)
    with Message assms show ?thesis
      by (auto simp: step_def on_message_def session_inv_def notify_error_def)
  next
    case (Parsed msg)
    with Message assms show ?thesis
      by (auto simp: step_def on_message_def on_init_def on_data_def on_signal_def
          session_inv_def notify_error_def split: if_splits option.splits sum.splits)
  qed
next
  case (PrimeSettled r)
  with assms show ?thesis
    by (auto simp: step_def on_prime_settled_def session_inv_def notify_error_def
        split: if_splits option.splits sum.splits)
next
  case (ExecuteSettled r)
  with assms show ?thesis
    by (auto simp: step_def on_execute_settled_def session_inv_def notify_error_def
        split: if_splits option.splits)
next
  case SocketClosed
  with assms show ?thesis
    by (auto simp: step_def on_close_def session_inv_def split: option.splits)
next
  case TimerExpired
  with assms show ?thesis
    by (auto simp: step_def on_timeout_def session_inv_def split: option.splits)
qed

lemma run_inv:
  "session_inv (s, effs) \<Longrightarrow> run cfg lookup (s, effs) evs = Some (s', effs') \<Longrightarrow>
   session_inv (s', effs')"
proof (induction evs arbitrary: s effs)
  case Nil
  then show ?case by simp
next
  case (Cons e evs)
  from Cons.prems(2) obtain s1 effs1 where
    st: "step cfg lookup s e = Some (s1, effs1)" and
    rest: "run cfg lookup (s1, effs @ effs1) evs = Some (s', effs')"
    by (auto split: option.splits)
  from step_inv[OF Cons.prems(1) st] rest show ?case
    by (rule Cons.IH)
qed

lemma run_init_sample:
  "run unlimited_config sample_registry connect [Message (Parsed init_message)] =
     Some (primed_session, [SetTimeout 1000, Prime])"
  by (simp add: connect_def step_def on_message_def on_init_def get_job_init_message
      primed_session_def)
     (simp add: init_message_def)

lemma run_nothing:
  "run unlimited_config sample_registry connect [] = Some (fresh_session, [SetTimeout 1000])"
  by (simp add: connect_def fresh_session_def)

text \<open>
  C5: a connection sets a timer of 1000 ms first. Whatever has happened on the session
  since, when the timer expires and no job has been created the handler closes the
  session with code 4001; when a job has been created, which is exactly when
  \<open>prime\<close> has been called, the expiry changes nothing and calls nothing.
\<close>

theorem init_timeout:
  assumes "run cfg lookup connect evs = Some (s, effs)"
  shows "hd effs = SetTimeout 1000 \<and>
     (job s = None \<longrightarrow>
        step cfg lookup s TimerExpired = Some (s, [Close 4001 ''Initialization Timeout''])) \<and>
     (job s \<noteq> None \<longrightarrow> step cfg lookup s TimerExpired = Some (s, [])) \<and>
     ((job s \<noteq> None) = (Prime \<in> set effs))"
proof -
  have "session_inv connect"
    by (simp add: connect_def session_inv_def)
  then have "session_inv (s, effs)"
    using assms run_inv[of "fst connect" "snd connect" cfg lookup evs s effs] by simp
  then show ?thesis
    by (auto simp: session_inv_def step_def on_timeout_def)
qed


theorem init_timeout_witness:
  "run unlimited_config sample_registry connect [] = Some (fresh_session, [SetTimeout 1000]) \<and>
   job fresh_session = None \<and>
   step unlimited_config sample_registry fresh_session TimerExpired =
     Some (fresh_session, [Close 4001 ''Initialization Timeout'']) \<and>
   run unlimited_config sample_registry connect [Message (Parsed init_message)] =
     Some (primed_session, [SetTimeout 1000, Prime]) \<and>
   job primed_session = Some sample_job \<and>
   step unlimited_config sample_registry primed_session TimerExpired =
     Some (primed_session, [])"
proof -
  have n: "job fresh_session = None"
    by (simp add: fresh_session_def)
  have j: "job primed_session = Some sample_job"
    by (simp add: primed_session_def)
  from init_timeout[OF run_nothing] init_timeout[OF run_init_sample] n j
    run_nothing run_init_sample
  show ?thesis by simp
qed


section \<open>Claims about the compile script\<close>

lemma digit_not_upper: "is_digit c \<Longrightarrow> \<not> is_upper c"
  by (simp add: is_digit_def is_upper_def)

lemma colon_not_digit: "\<not> is_digit CHR '':''"
  by (simp add: is_digit_def)

lemma match_here_iff:
  "match_here s \<longleftrightarrow>
     (\<exists>us ds post. s = ''error '' @ us @ ds @ '':'' @ post \<and>
        us \<noteq> [] \<and> ds \<noteq> [] \<and> list_all is_upper us \<and> list_all is_digit ds)"
  (is "?L \<longleftrightarrow> ?R")
proof
  assume ?L
  define r where "r = drop 6 s"
  define us where "us = takeWhile is_upper r"
  define r1 where "r1 = dropWhile is_upper r"
  define ds where "ds = takeWhile is_digit r1"
  define r2 where "r2 = dropWhile is_digit r1"
  from \<open>?L\<close> have t: "take 6 s = ''error ''" and u: "us \<noteq> []" and d: "ds \<noteq> []"
    and c: "take 1 r2 = '':''"
    by (simp_all add: match_here_def Let_def r_def us_def r1_def ds_def r2_def)
  from c obtain post where r2: "r2 = '':'' @ post"
    by (cases r2) auto
  have "s = take 6 s @ r" by (simp add: r_def)
  also have "r = us @ r1" by (simp add: us_def r1_def)
  also have "r1 = ds @ r2" by (simp add: ds_def r2_def)
  finally have "s = ''error '' @ us @ ds @ '':'' @ post"
    using t r2 by simp
  moreover have "list_all is_upper us"
    by (auto simp: us_def list_all_iff dest: set_takeWhileD)
  moreover have "list_all is_digit ds"
    by (auto simp: ds_def list_all_iff dest: set_takeWhileD)
  ultimately show ?R using u d by blast
next
  assume ?R
  then obtain us ds post where s: "s = ''error '' @ us @ ds @ '':'' @ post"
    and u: "us \<noteq> []" and d: "ds \<noteq> []"
    and au: "list_all is_upper us" and ad: "list_all is_digit ds"
    by blast
  from d obtain d0 ds' where ds: "ds = d0 # ds'" by (cases ds) auto
  with ad have d0: "\<not> is_upper d0" by (simp add: digit_not_upper)
  have tu: "takeWhile is_upper (us @ ds @ CHR '':'' # post) = us"
    using au d0 ds by (simp add: list_all_iff takeWhile_append2)
  have du: "dropWhile is_upper (us @ ds @ CHR '':'' # post) = ds @ CHR '':'' # post"
    using au d0 ds by (simp add: list_all_iff dropWhile_append2)
  have td: "takeWhile is_digit (ds @ CHR '':'' # post) = ds"
    using ad colon_not_digit by (simp add: list_all_iff takeWhile_append2)
  have dd: "dropWhile is_digit (ds @ CHR '':'' # post) = CHR '':'' # post"
    using ad colon_not_digit by (simp add: list_all_iff dropWhile_append2)
  show ?L
    using u d by (simp add: match_here_def Let_def s tu du td dd)
qed

lemma grep_match_suffix: "grep_match s \<longleftrightarrow> (\<exists>pre t. s = pre @ t \<and> match_here t)"
proof (induction s)
  case Nil
  then show ?case by (simp add: match_here_def)
next
  case (Cons c cs)
  show ?case
  proof
    assume "grep_match (c # cs)"
    then consider "match_here (c # cs)" | "grep_match cs" by auto
    then show "\<exists>pre t. c # cs = pre @ t \<and> match_here t"
    proof cases
      case 1
      then have "c # cs = [] @ (c # cs) \<and> match_here (c # cs)" by simp
      then show ?thesis by blast
    next
      case 2
      with Cons.IH obtain pre t where "cs = pre @ t" "match_here t" by blast
      then have "c # cs = (c # pre) @ t \<and> match_here t" by simp
      then show ?thesis by blast
    qed
  next
    assume "\<exists>pre t. c # cs = pre @ t \<and> match_here t"
    then obtain pre t where e: "c # cs = pre @ t" and m: "match_here t" by blast
    show "grep_match (c # cs)"
    proof (cases pre)
      case Nil
      with e m have "match_here (c # cs)" by simp
      then show ?thesis by simp
    next
      case (Cons p pre')
      with e have "cs = pre' @ t" by simp
      with m Cons.IH show ?thesis by auto
    qed
  qed
qed

lemma grep_match_iff: "grep_match s \<longleftrightarrow> has_error_diagnostic s"
proof
  assume "grep_match s"
  then obtain pre t where s: "s = pre @ t" and "match_here t"
    using grep_match_suffix[THEN iffD1] by blast
  then obtain us ds post where t: "t = ''error '' @ us @ ds @ '':'' @ post"
    and p: "us \<noteq> []" "ds \<noteq> []" "list_all is_upper us" "list_all is_digit ds"
    using match_here_iff[THEN iffD1] by blast
  from s t have "s = pre @ ''error '' @ us @ ds @ '':'' @ post" by simp
  with p show "has_error_diagnostic s"
    unfolding has_error_diagnostic_def by blast
next
  assume "has_error_diagnostic s"
  then obtain pre us ds post where s: "s = pre @ ''error '' @ us @ ds @ '':'' @ post"
    and p: "us \<noteq> []" "ds \<noteq> []" "list_all is_upper us" "list_all is_digit ds"
    unfolding has_error_diagnostic_def by blast
  from p have "match_here (''error '' @ us @ ds @ '':'' @ post)"
    using match_here_iff[THEN iffD2] by blast
  with s show "grep_match s"
    using grep_match_suffix[THEN iffD2] by blast
qed


text \<open>What \<open>check_errors\<close> does after a compiler has written \<open>check.txt\<close>.\<close>

lemma check_errors_after_compiler:
  "check_errors (exec_to_check tool prog words s) =
     \<lparr>check_txt = None,
      sh_stdout = (if grep_match (p_stdout (tool prog words))
                   then sh_stdout s else sh_stdout s @ p_stdout (tool prog words)),
      sh_stderr = sh_stderr s @ p_stderr (tool prog words) @
                  (if grep_match (p_stdout (tool prog words))
                   then p_stdout (tool prog words) else []),
      trace = trace s @
        [Command prog words (ToFile ''check.txt''),
         Command ''grep'' [''-q'', ''error [A-Z]'' @ [CHR 0x5C] @ ''+[0-9]''
                             @ [CHR 0x5C] @ ''+:'', ''check.txt''] Inherit,
         Command ''cat'' [''check.txt'']
           (if grep_match (p_stdout (tool prog words)) then ToStderr else Inherit),
         Command ''rm'' [''check.txt''] Inherit],
      status = 0\<rparr>"
  by (simp add: check_errors_def exec_to_check_def grep_q_def cat_check_def rm_check_def Let_def)

lemma compile_script_csharp:
  "compile_script tool (Some ''csharp'') argv =
     check_errors (exec_to_check tool ''csc'' [''-out:out'', ''*.cs'']
       (exec tool ''rename'' (add_extension ''cs'' # argv)
          \<lparr>check_txt = None, sh_stdout = [], sh_stderr = [], trace = [], status = 0\<rparr>))"
  by (simp add: compile_script_def)

lemma compile_script_basic:
  "compile_script tool (Some ''basic'') argv =
     check_errors (exec_to_check tool ''vbnc'' [''-out:out'', ''*.vb'']
       (exec tool ''rename'' (add_extension ''vb'' # argv)
          \<lparr>check_txt = None, sh_stdout = [], sh_stderr = [], trace = [], status = 0\<rparr>))"
  by (simp add: compile_script_def)

lemma compile_script_other:
  "lang \<noteq> Some ''csharp'' \<Longrightarrow> lang \<noteq> Some ''basic'' \<Longrightarrow>
   compile_script tool lang argv =
     \<lparr>check_txt = None,
      sh_stdout = ''How did you get here? ('' @ (case lang of None \<Rightarrow> [] | Some v \<Rightarrow> v)
                  @ '')'' @ [CHR 0x0A],
      sh_stderr = [],
      trace = [Command ''echo''
                 [''How did you get here? ('' @ (case lang of None \<Rightarrow> [] | Some v \<Rightarrow> v) @ '')'']
                 Inherit],
      status = 1\<rparr>"
  by (cases lang) (simp_all add: compile_script_def echo_def exit_with_def)

lemma grep_match_error: "grep_match ''a.cs(1,9): error CS1002: ; expected''"
  by (simp add: match_here_def is_upper_def is_digit_def)

lemma grep_match_warning: "\<not> grep_match ''a.cs(1,9): warning CS0168: unused''"
  by (simp add: match_here_def is_upper_def is_digit_def)

text \<open>
  C8: the script branches on \<open>PISTON_LANGUAGE\<close>. For \<open>csharp\<close> it runs
  \<open>rename\<close> with the expression \<open>s/$/\.cs/\<close>, which appends \<open>.cs\<close>, on the
  staged files, then \<open>csc -out:out *.cs\<close> with its output in \<open>check.txt\<close>, then
  \<open>grep\<close>, \<open>cat\<close> and \<open>rm\<close> on that file, so that what \<open>csc\<close> printed
  reaches the standard error or the standard output of the script; for \<open>basic\<close> the
  same with \<open>s/$/\.vb/\<close> and \<open>vbnc -out:out *.vb\<close>; for every other value, and
  when the variable is unset, it runs none of them, prints \<open>How did you get here?\<close>
  with the value, and exits with status 1.
\<close>

theorem compile_script_branches:
  "(lang = Some ''csharp'' \<longrightarrow>
      compile_script tool lang argv =
        \<lparr>check_txt = None,
         sh_stdout =
           p_stdout (tool ''rename'' ((''s/$/'' @ [CHR 0x5C] @ ''.cs/'') # argv)) @
           (if has_error_diagnostic (p_stdout (tool ''csc'' [''-out:out'', ''*.cs''])) then []
            else p_stdout (tool ''csc'' [''-out:out'', ''*.cs''])),
         sh_stderr =
           p_stderr (tool ''rename'' ((''s/$/'' @ [CHR 0x5C] @ ''.cs/'') # argv)) @
           p_stderr (tool ''csc'' [''-out:out'', ''*.cs'']) @
           (if has_error_diagnostic (p_stdout (tool ''csc'' [''-out:out'', ''*.cs'']))
            then p_stdout (tool ''csc'' [''-out:out'', ''*.cs'']) else []),
         trace =
           [Command ''rename'' ((''s/$/'' @ [CHR 0x5C] @ ''.cs/'') # argv) Inherit,
            Command ''csc'' [''-out:out'', ''*.cs''] (ToFile ''check.txt''),
            Command ''grep''
              [''-q'', ''error [A-Z]'' @ [CHR 0x5C] @ ''+[0-9]'' @ [CHR 0x5C] @ ''+:'',
               ''check.txt''] Inherit,
            Command ''cat'' [''check.txt'']
              (if has_error_diagnostic (p_stdout (tool ''csc'' [''-out:out'', ''*.cs'']))
               then ToStderr else Inherit),
            Command ''rm'' [''check.txt''] Inherit],
         status = 0\<rparr>) \<and>
   (lang = Some ''basic'' \<longrightarrow>
      compile_script tool lang argv =
        \<lparr>check_txt = None,
         sh_stdout =
           p_stdout (tool ''rename'' ((''s/$/'' @ [CHR 0x5C] @ ''.vb/'') # argv)) @
           (if has_error_diagnostic (p_stdout (tool ''vbnc'' [''-out:out'', ''*.vb''])) then []
            else p_stdout (tool ''vbnc'' [''-out:out'', ''*.vb''])),
         sh_stderr =
           p_stderr (tool ''rename'' ((''s/$/'' @ [CHR 0x5C] @ ''.vb/'') # argv)) @
           p_stderr (tool ''vbnc'' [''-out:out'', ''*.vb'']) @
           (if has_error_diagnostic (p_stdout (tool ''vbnc'' [''-out:out'', ''*.vb'']))
            then p_stdout (tool ''vbnc'' [''-out:out'', ''*.vb'']) else []),
         trace =
           [Command ''rename'' ((''s/$/'' @ [CHR 0x5C] @ ''.vb/'') # argv) Inherit,
            Command ''vbnc'' [''-out:out'', ''*.vb''] (ToFile ''check.txt''),
            Command ''grep''
              [''-q'', ''error [A-Z]'' @ [CHR 0x5C] @ ''+[0-9]'' @ [CHR 0x5C] @ ''+:'',
               ''check.txt''] Inherit,
            Command ''cat'' [''check.txt'']
              (if has_error_diagnostic (p_stdout (tool ''vbnc'' [''-out:out'', ''*.vb'']))
               then ToStderr else Inherit),
            Command ''rm'' [''check.txt''] Inherit],
         status = 0\<rparr>) \<and>
   (lang \<noteq> Some ''csharp'' \<and> lang \<noteq> Some ''basic'' \<longrightarrow>
      compile_script tool lang argv =
        \<lparr>check_txt = None,
         sh_stdout =
           ''How did you get here? ('' @ (case lang of None \<Rightarrow> [] | Some v \<Rightarrow> v) @ '')''
           @ [CHR 0x0A],
         sh_stderr = [],
         trace =
           [Command ''echo''
              [''How did you get here? ('' @ (case lang of None \<Rightarrow> [] | Some v \<Rightarrow> v) @ '')'']
              Inherit],
         status = 1\<rparr>)"
proof (intro conjI impI)
  assume "lang = Some ''csharp''"
  then show "compile_script tool lang argv =
        \<lparr>check_txt = None,
         sh_stdout =
           p_stdout (tool ''rename'' ((''s/$/'' @ [CHR 0x5C] @ ''.cs/'') # argv)) @
           (if has_error_diagnostic (p_stdout (tool ''csc'' [''-out:out'', ''*.cs''])) then []
            else p_stdout (tool ''csc'' [''-out:out'', ''*.cs''])),
         sh_stderr =
           p_stderr (tool ''rename'' ((''s/$/'' @ [CHR 0x5C] @ ''.cs/'') # argv)) @
           p_stderr (tool ''csc'' [''-out:out'', ''*.cs'']) @
           (if has_error_diagnostic (p_stdout (tool ''csc'' [''-out:out'', ''*.cs'']))
            then p_stdout (tool ''csc'' [''-out:out'', ''*.cs'']) else []),
         trace =
           [Command ''rename'' ((''s/$/'' @ [CHR 0x5C] @ ''.cs/'') # argv) Inherit,
            Command ''csc'' [''-out:out'', ''*.cs''] (ToFile ''check.txt''),
            Command ''grep''
              [''-q'', ''error [A-Z]'' @ [CHR 0x5C] @ ''+[0-9]'' @ [CHR 0x5C] @ ''+:'',
               ''check.txt''] Inherit,
            Command ''cat'' [''check.txt'']
              (if has_error_diagnostic (p_stdout (tool ''csc'' [''-out:out'', ''*.cs'']))
               then ToStderr else Inherit),
            Command ''rm'' [''check.txt''] Inherit],
         status = 0\<rparr>"
    by (simp add: compile_script_csharp check_errors_after_compiler exec_def Let_def
        add_extension_def grep_match_iff del: grep_match.simps)
next
  assume "lang = Some ''basic''"
  then show "compile_script tool lang argv =
        \<lparr>check_txt = None,
         sh_stdout =
           p_stdout (tool ''rename'' ((''s/$/'' @ [CHR 0x5C] @ ''.vb/'') # argv)) @
           (if has_error_diagnostic (p_stdout (tool ''vbnc'' [''-out:out'', ''*.vb''])) then []
            else p_stdout (tool ''vbnc'' [''-out:out'', ''*.vb''])),
         sh_stderr =
           p_stderr (tool ''rename'' ((''s/$/'' @ [CHR 0x5C] @ ''.vb/'') # argv)) @
           p_stderr (tool ''vbnc'' [''-out:out'', ''*.vb'']) @
           (if has_error_diagnostic (p_stdout (tool ''vbnc'' [''-out:out'', ''*.vb'']))
            then p_stdout (tool ''vbnc'' [''-out:out'', ''*.vb'']) else []),
         trace =
           [Command ''rename'' ((''s/$/'' @ [CHR 0x5C] @ ''.vb/'') # argv) Inherit,
            Command ''vbnc'' [''-out:out'', ''*.vb''] (ToFile ''check.txt''),
            Command ''grep''
              [''-q'', ''error [A-Z]'' @ [CHR 0x5C] @ ''+[0-9]'' @ [CHR 0x5C] @ ''+:'',
               ''check.txt''] Inherit,
            Command ''cat'' [''check.txt'']
              (if has_error_diagnostic (p_stdout (tool ''vbnc'' [''-out:out'', ''*.vb'']))
               then ToStderr else Inherit),
            Command ''rm'' [''check.txt''] Inherit],
         status = 0\<rparr>"
    by (simp add: compile_script_basic check_errors_after_compiler exec_def Let_def
        add_extension_def grep_match_iff del: grep_match.simps)
next
  assume "lang \<noteq> Some ''csharp'' \<and> lang \<noteq> Some ''basic''"
  then show "compile_script tool lang argv =
        \<lparr>check_txt = None,
         sh_stdout =
           ''How did you get here? ('' @ (case lang of None \<Rightarrow> [] | Some v \<Rightarrow> v) @ '')''
           @ [CHR 0x0A],
         sh_stderr = [],
         trace =
           [Command ''echo''
              [''How did you get here? ('' @ (case lang of None \<Rightarrow> [] | Some v \<Rightarrow> v) @ '')'']
              Inherit],
         status = 1\<rparr>"
    by (simp add: compile_script_other)
qed

theorem compile_script_branches_witness:
  "compile_script failing_compiler (Some ''csharp'') [''a'', ''b''] =
     \<lparr>check_txt = None, sh_stdout = [],
      sh_stderr = ''a.cs(1,9): error CS1002: ; expected'',
      trace =
        [Command ''rename'' [''s/$/'' @ [CHR 0x5C] @ ''.cs/'', ''a'', ''b''] Inherit,
         Command ''csc'' [''-out:out'', ''*.cs''] (ToFile ''check.txt''),
         Command ''grep''
           [''-q'', ''error [A-Z]'' @ [CHR 0x5C] @ ''+[0-9]'' @ [CHR 0x5C] @ ''+:'',
            ''check.txt''] Inherit,
         Command ''cat'' [''check.txt''] ToStderr,
         Command ''rm'' [''check.txt''] Inherit],
      status = 0\<rparr> \<and>
   compile_script warning_compiler (Some ''basic'') [''a'', ''b''] =
     \<lparr>check_txt = None, sh_stdout = ''a.cs(1,9): warning CS0168: unused'',
      sh_stderr = [],
      trace =
        [Command ''rename'' [''s/$/'' @ [CHR 0x5C] @ ''.vb/'', ''a'', ''b''] Inherit,
         Command ''vbnc'' [''-out:out'', ''*.vb''] (ToFile ''check.txt''),
         Command ''grep''
           [''-q'', ''error [A-Z]'' @ [CHR 0x5C] @ ''+[0-9]'' @ [CHR 0x5C] @ ''+:'',
            ''check.txt''] Inherit,
         Command ''cat'' [''check.txt''] Inherit,
         Command ''rm'' [''check.txt''] Inherit],
      status = 0\<rparr> \<and>
   compile_script failing_compiler (Some ''python'') [''a'', ''b''] =
     \<lparr>check_txt = None, sh_stdout = ''How did you get here? (python)'' @ [CHR 0x0A],
      sh_stderr = [],
      trace = [Command ''echo'' [''How did you get here? (python)''] Inherit],
      status = 1\<rparr> \<and>
   compile_script failing_compiler None [''a'', ''b''] =
     \<lparr>check_txt = None, sh_stdout = ''How did you get here? ()'' @ [CHR 0x0A],
      sh_stderr = [],
      trace = [Command ''echo'' [''How did you get here? ()''] Inherit],
      status = 1\<rparr>"
proof -
  have f: "failing_compiler ''csc'' ws =
      \<lparr>p_stdout = ''a.cs(1,9): error CS1002: ; expected'', p_stderr = [], p_status = 1\<rparr>"
    "failing_compiler ''rename'' ws = \<lparr>p_stdout = [], p_stderr = [], p_status = 0\<rparr>" for ws
    by (simp_all add: failing_compiler_def)
  have w: "warning_compiler ''vbnc'' ws =
      \<lparr>p_stdout = ''a.cs(1,9): warning CS0168: unused'', p_stderr = [], p_status = 0\<rparr>"
    "warning_compiler ''rename'' ws = \<lparr>p_stdout = [], p_stderr = [], p_status = 0\<rparr>" for ws
    by (simp_all add: warning_compiler_def)
  have e: "has_error_diagnostic ''a.cs(1,9): error CS1002: ; expected''"
    using grep_match_error grep_match_iff by blast
  have n: "\<not> has_error_diagnostic ''a.cs(1,9): warning CS0168: unused''"
    using grep_match_warning grep_match_iff by blast
  from compile_script_branches[of "Some ''csharp''" failing_compiler "[''a'', ''b'']"]
    compile_script_branches[of "Some ''basic''" warning_compiler "[''a'', ''b'']"]
    compile_script_branches[of "Some ''python''" failing_compiler "[''a'', ''b'']"]
    compile_script_branches[of None failing_compiler "[''a'', ''b'']"]
    e n
  show ?thesis by (simp add: f w)
qed

text \<open>
  C10: in the \<open>csharp\<close> and \<open>basic\<close> branches the last command of the script is
  \<open>rm check.txt\<close> and the exit status is 0, whatever status the compiler returned.
  When the captured output of the compiler contains an error diagnostic, it is written
  to the standard error of the script and nothing of it to the standard output; when
  it contains none, it is written to the standard output.
\<close>

theorem compile_script_exit_status:
  "(lang = Some ''csharp'' \<and> prog = ''csc'' \<and> ext = ''cs'' \<or>
    lang = Some ''basic'' \<and> prog = ''vbnc'' \<and> ext = ''vb'') \<longrightarrow>
   status (compile_script tool lang argv) = 0 \<and>
   last (trace (compile_script tool lang argv)) = Command ''rm'' [''check.txt''] Inherit \<and>
   (has_error_diagnostic (p_stdout (tool prog [''-out:out'', ''*.'' @ ext])) \<longrightarrow>
      sh_stderr (compile_script tool lang argv) =
        p_stderr (tool ''rename'' (add_extension ext # argv)) @
        p_stderr (tool prog [''-out:out'', ''*.'' @ ext]) @
        p_stdout (tool prog [''-out:out'', ''*.'' @ ext]) \<and>
      sh_stdout (compile_script tool lang argv) =
        p_stdout (tool ''rename'' (add_extension ext # argv))) \<and>
   (\<not> has_error_diagnostic (p_stdout (tool prog [''-out:out'', ''*.'' @ ext])) \<longrightarrow>
      sh_stdout (compile_script tool lang argv) =
        p_stdout (tool ''rename'' (add_extension ext # argv)) @
        p_stdout (tool prog [''-out:out'', ''*.'' @ ext]) \<and>
      sh_stderr (compile_script tool lang argv) =
        p_stderr (tool ''rename'' (add_extension ext # argv)) @
        p_stderr (tool prog [''-out:out'', ''*.'' @ ext]))"
  by (auto simp: compile_script_csharp compile_script_basic check_errors_after_compiler
      exec_def Let_def grep_match_iff[symmetric])

theorem compile_script_exit_status_witness:
  "has_error_diagnostic (p_stdout (failing_compiler ''csc'' [''-out:out'', ''*.cs''])) \<and>
   p_status (failing_compiler ''csc'' [''-out:out'', ''*.cs'']) = 1 \<and>
   status (compile_script failing_compiler (Some ''csharp'') [''a'']) = 0 \<and>
   sh_stderr (compile_script failing_compiler (Some ''csharp'') [''a'']) =
     ''a.cs(1,9): error CS1002: ; expected'' \<and>
   sh_stdout (compile_script failing_compiler (Some ''csharp'') [''a'']) = [] \<and>
   \<not> has_error_diagnostic (p_stdout (warning_compiler ''vbnc'' [''-out:out'', ''*.vb''])) \<and>
   p_status (warning_compiler ''vbnc'' [''-out:out'', ''*.vb'']) = 0 \<and>
   status (compile_script warning_compiler (Some ''basic'') [''a'']) = 0 \<and>
   sh_stdout (compile_script warning_compiler (Some ''basic'') [''a'']) =
     ''a.cs(1,9): warning CS0168: unused'' \<and>
   sh_stderr (compile_script warning_compiler (Some ''basic'') [''a'']) = []"
proof -
  have f: "failing_compiler ''csc'' [''-out:out'', ''*.cs''] =
      \<lparr>p_stdout = ''a.cs(1,9): error CS1002: ; expected'', p_stderr = [], p_status = 1\<rparr>"
    "failing_compiler ''rename'' ws = \<lparr>p_stdout = [], p_stderr = [], p_status = 0\<rparr>" for ws
    by (simp_all add: failing_compiler_def)
  have w: "warning_compiler ''vbnc'' [''-out:out'', ''*.vb''] =
      \<lparr>p_stdout = ''a.cs(1,9): warning CS0168: unused'', p_stderr = [], p_status = 0\<rparr>"
    "warning_compiler ''rename'' ws = \<lparr>p_stdout = [], p_stderr = [], p_status = 0\<rparr>" for ws
    by (simp_all add: warning_compiler_def)
  have e: "has_error_diagnostic ''a.cs(1,9): error CS1002: ; expected''"
    using grep_match_error grep_match_iff by blast
  have n: "\<not> has_error_diagnostic ''a.cs(1,9): warning CS0168: unused''"
    using grep_match_warning grep_match_iff by blast
  from compile_script_exit_status[of "Some ''csharp''" "''csc''" "''cs''" failing_compiler "[''a'']"]
    compile_script_exit_status[of "Some ''basic''" "''vbnc''" "''vb''" warning_compiler "[''a'']"]
    e n
  show ?thesis by (simp add: f w)
qed

end
